theory Spec2Isabelle
  imports Main "HOL-Library.Multiset" "HOL-Library.Char_ord" "HOL-Library.List_Lexorder"
begin

section \<open>Python primitives used by the clip downloader\<close>

text \<open>
  A Python \<open>str\<close> is modelled as a \<open>string\<close>, one \<open>char\<close> per character, so the
  characters are the code points below 256. The functions of this section are the
  library functions the repository calls, written out on that domain.
\<close>

text \<open>The character class of \<^verbatim>\<open>re.sub(r'[\\/*?:"<>|]', '_', title)\<close>:
  backslash, slash, star, question mark, colon, double quote, less, greater, bar.\<close>

definition invalid_chars :: "char list" where
  "invalid_chars =
     [CHR 0x5C, CHR ''/'', CHR ''*'', CHR ''?'', CHR '':'', CHR 0x22, CHR ''<'', CHR ''>'', CHR ''|'']"

text \<open>\<^verbatim>\<open>sanitized_title = re.sub(r'[\\/*?:"<>|]', '_', title)\<close>: the pattern matches
  one character at a time, scanning from the left; each match is replaced by an
  underscore and every other character is copied.\<close>

fun sanitized_title :: "string \<Rightarrow> string" where
  "sanitized_title [] = []"
| "sanitized_title (c # cs) =
     (if c \<in> set invalid_chars then CHR ''_'' # sanitized_title cs
      else c # sanitized_title cs)"

text \<open>\<^verbatim>\<open>str(n)\<close> for an integer: decimal digits, a minus sign for negatives.\<close>

fun str_nat :: "nat \<Rightarrow> string" where
  "str_nat n = (if n < 10 then [char_of (48 + n)] else str_nat (n div 10) @ [char_of (48 + n mod 10)])"

declare str_nat.simps [simp del]

definition str_int :: "int \<Rightarrow> string" where
  "str_int i = (if i < 0 then CHR ''-'' # str_nat (nat (- i)) else str_nat (nat i))"

text \<open>A number read from the command line or from a JSON configuration is an \<open>int\<close>
  or a \<open>float\<close>; the code only ever renders it with \<open>str\<close>, so a float is carried as
  the text \<open>str\<close> gives for it.\<close>

datatype pynum = PyInt int | PyFloat string

fun str_num :: "pynum \<Rightarrow> string" where
  "str_num (PyInt i) = str_int i"
| "str_num (PyFloat s) = s"

text \<open>The value under \<open>view_count\<close> in a line of the listing, which the program stores,
  compares and prints as it comes: JSON \<open>null\<close> (Python's \<open>None\<close>), an integer, or a
  string. Booleans, numbers with a fraction or an exponent, arrays and objects are left
  out.\<close>

datatype jvalue = JNull | JInt int | JStr string

text \<open>\<^verbatim>\<open>str(v)\<close>, as an f-string renders the value.\<close>

fun str_value :: "jvalue \<Rightarrow> string" where
  "str_value JNull = ''None''"
| "str_value (JInt i) = str_int i"
| "str_value (JStr s) = s"

text \<open>Python's \<open>a < b\<close> on two such values: integers compare as numbers; strings compare
  code point by code point, a proper prefix being smaller; every other pair, \<open>None\<close> beside
  \<open>None\<close> included, raises \<open>TypeError\<close>, which is the result \<open>None\<close> here.\<close>

fun py_less :: "jvalue \<Rightarrow> jvalue \<Rightarrow> bool option" where
  "py_less (JInt a) (JInt b) = Some (a < b)"
| "py_less (JStr a) (JStr b) = Some (a < b)"
| "py_less a b = None"

text \<open>\<^verbatim>\<open>str.lower()\<close> on code points below 256: the ASCII capitals and the Latin-1
  capitals (all of 0xC0..0xDE but the multiplication sign 0xD7) move up by 32.\<close>

definition lower_char :: "char \<Rightarrow> char" where
  "lower_char c =
     (let n = (of_char c :: nat) in
      if (65 \<le> n \<and> n \<le> 90) \<or> (192 \<le> n \<and> n \<le> 222 \<and> n \<noteq> 215) then char_of (n + 32) else c)"

definition lower :: "string \<Rightarrow> string" where
  "lower s = map lower_char s"

text \<open>\<^verbatim>\<open>sep.join(xs)\<close>.\<close>

fun str_join :: "string \<Rightarrow> string list \<Rightarrow> string" where
  "str_join sep [] = []"
| "str_join sep [x] = x"
| "str_join sep (x # y # ys) = x @ sep @ str_join sep (y # ys)"

text \<open>The single quote, which a string literal cannot hold.\<close>

definition sq :: string where
  "sq = [CHR 0x27]"

text \<open>\<^verbatim>\<open>str.strip()\<close>: the characters for which \<open>str.isspace\<close> holds, below 256, are
  9 to 13, 28 to 32, 133 and 160.\<close>

definition is_space :: "char \<Rightarrow> bool" where
  "is_space c =
     (let n = (of_char c :: nat) in (9 \<le> n \<and> n \<le> 13) \<or> (28 \<le> n \<and> n \<le> 32) \<or> n = 133 \<or> n = 160)"

definition strip :: "string \<Rightarrow> string" where
  "strip s = rev (dropWhile is_space (rev (dropWhile is_space s)))"

text \<open>\<^verbatim>\<open>s.split('\n')\<close>: the pieces between the newlines; never an empty list.\<close>

fun split_nl :: "string \<Rightarrow> string list" where
  "split_nl [] = [[]]"
| "split_nl (c # cs) =
     (if c = CHR 0x0A then [] # split_nl cs
      else (case split_nl cs of
              [] \<Rightarrow> [[c]]
            | l # ls \<Rightarrow> (c # l) # ls))"

text \<open>\<^verbatim>\<open>s.rsplit('.', 1)[0]\<close>: the text before the last dot, the whole text when it
  has no dot.\<close>

definition rsplit_dot :: "string \<Rightarrow> string" where
  "rsplit_dot s =
     (if CHR ''.'' \<in> set s
      then take (length s - length (takeWhile (\<lambda>c. c \<noteq> CHR ''.'') (rev s)) - 1) s
      else s)"

subsection \<open>Dates\<close>

text \<open>A naive \<open>datetime\<close>, as \<open>datetime.datetime.now()\<close> gives it.\<close>

record datetime =
  year :: nat
  month :: nat
  day :: nat
  hour :: nat
  minute :: nat
  second :: nat
  microsecond :: nat

definition is_leap :: "nat \<Rightarrow> bool" where
  "is_leap y = (y mod 4 = 0 \<and> (y mod 100 \<noteq> 0 \<or> y mod 400 = 0))"

definition days_in_month :: "nat \<Rightarrow> nat \<Rightarrow> nat" where
  "days_in_month y m =
     (if m = 2 then (if is_leap y then 29 else 28)
      else if m = 4 \<or> m = 6 \<or> m = 9 \<or> m = 11 then 30
      else 31)"

text \<open>A \<open>datetime\<close> of Python is always a date of the calendar, in the years 1 to 9999.\<close>

definition valid_date :: "datetime \<Rightarrow> bool" where
  "valid_date d =
     (1 \<le> year d \<and> year d \<le> 9999 \<and> 1 \<le> month d \<and> month d \<le> 12
      \<and> 1 \<le> day d \<and> day d \<le> days_in_month (year d) (month d))"

text \<open>\<^verbatim>\<open>d - datetime.timedelta(days=n)\<close>: the time of day stays, the date moves back
  day by day; before the year 1 the subtraction raises \<open>OverflowError\<close>, here \<open>None\<close>.
  \<open>timedelta(hours=24)\<close> is one day.\<close>

fun minus_days :: "datetime \<Rightarrow> nat \<Rightarrow> datetime option" where
  "minus_days d 0 = Some d"
| "minus_days d (Suc n) =
     (if 1 < day d then minus_days (d\<lparr>day := day d - 1\<rparr>) n
      else if 1 < month d
        then minus_days (d\<lparr>month := month d - 1, day := days_in_month (year d) (month d - 1)\<rparr>) n
      else if 1 < year d
        then minus_days (d\<lparr>year := year d - 1, month := 12, day := 31\<rparr>) n
      else None)"

definition pad2 :: "nat \<Rightarrow> string" where
  "pad2 n = (if n < 10 then CHR ''0'' # str_nat n else str_nat n)"

text \<open>\<^verbatim>\<open>strftime("%Y%m%d")\<close>; the year is printed without padding, as the C library
  does, which makes no difference from the year 1000 on. \<^verbatim>\<open>strftime("%H:%M:%S")\<close>.\<close>

definition strftime_Ymd :: "datetime \<Rightarrow> string" where
  "strftime_Ymd d = str_nat (year d) @ pad2 (month d) @ pad2 (day d)"

definition strftime_HMS :: "datetime \<Rightarrow> string" where
  "strftime_HMS d = pad2 (hour d) @ '':'' @ pad2 (minute d) @ '':'' @ pad2 (second d)"

text \<open>\<^verbatim>\<open>d.isoformat()\<close>: four digits for the year, and the microseconds, six digits,
  only when they are not zero.\<close>

definition pad_left :: "nat \<Rightarrow> string \<Rightarrow> string" where
  "pad_left n s = replicate (n - length s) (CHR ''0'') @ s"

definition isoformat :: "datetime \<Rightarrow> string" where
  "isoformat d =
     pad_left 4 (str_nat (year d)) @ ''-'' @ pad2 (month d) @ ''-'' @ pad2 (day d) @ ''T''
     @ pad2 (hour d) @ '':'' @ pad2 (minute d) @ '':'' @ pad2 (second d)
     @ (if microsecond d = 0 then [] else ''.'' @ pad_left 6 (str_nat (microsecond d)))"

subsection \<open>Paths\<close>

text \<open>\<open>os.path\<close> is taken to be \<open>posixpath\<close>: the separator is the slash.\<close>

definition basename :: "string \<Rightarrow> string" where
  "basename p = rev (takeWhile (\<lambda>c. c \<noteq> CHR ''/'') (rev p))"

text \<open>\<^verbatim>\<open>os.path.splitext\<close>: the extension starts at the last dot of the last
  component, unless only dots stand before that dot in the component.\<close>

definition splitext :: "string \<Rightarrow> string \<times> string" where
  "splitext p =
     (let b = basename p;
          ext = rev (takeWhile (\<lambda>c. c \<noteq> CHR ''.'') (rev b));
          stem = take (length b - length ext - 1) b
      in if CHR ''.'' \<in> set b \<and> filter (\<lambda>c. c \<noteq> CHR ''.'') stem \<noteq> []
         then (take (length p - length ext - 1) p, CHR ''.'' # ext)
         else (p, []))"

definition path_join :: "string \<Rightarrow> string \<Rightarrow> string" where
  "path_join a b =
     (if b \<noteq> [] \<and> hd b = CHR ''/'' then b
      else if a = [] \<or> last a = CHR ''/'' then a @ b
      else a @ ''/'' @ b)"

section \<open>The world outside the program\<close>

text \<open>
  The program acts on a file system, starts external programs, prints, and reads the
  clock. The state \<open>world\<close> holds what it has done; the record \<open>env\<close> holds how the
  outside answers, and every function below works for every \<open>env\<close>.
  \<^item> \<open>files\<close>: the regular files, a map from the path as the program spells it to the
    content. Directories are not part of it, and \<open>os.makedirs\<close> is taken to succeed.
  \<^item> \<open>procs\<close>: every call of \<open>subprocess.run\<close> that reached the operating system, in
    order: the argument vector, the files at that moment, and how the call ended.
  \<^item> \<open>written\<close>: every file the program itself wrote with \<open>open(path, 'w')\<close>, in order.
  \<^item> \<open>printed\<close>: the text of every call of \<open>print\<close>, in order.
  \<^item> \<open>ticks\<close>: how often the clock has been read.
  \<^item> \<open>gui\<close>: the updates of the window that the download thread has handed to
    \<open>root.after\<close>, in order.
  Writing a file with \<open>open(path, 'w')\<close> is taken to succeed.
\<close>

datatype proc_result = NotFound | Exited int string string

datatype gui_call = SetStatus string | EnableButtons | ShowInfo string string

datatype exn =
    TypeError
  | AttributeError
  | FileNotFoundError
  | OverflowError
  | CalledProcessError "string list" int
  | SystemExit int

record world =
  files :: "string \<rightharpoonup> string"
  procs :: "(string list \<times> (string \<rightharpoonup> string) \<times> proc_result) list"
  written :: "(string \<times> string) list"
  printed :: "string list"
  ticks :: nat
  gui :: "gui_call list"

text \<open>A line of the listing tool's output, as \<open>json.loads\<close> reads it: malformed
  (\<open>JSONDecodeError\<close>), a JSON value that is not an object, or an object. Of an object
  only the seven keys the program reads are kept, each possibly absent. The value of
  \<open>view_count\<close>, which the program compares when it sorts, is a \<open>jvalue\<close>; the other
  values are taken to have the types the listing tool gives them: strings, and a number for
  \<open>duration\<close>.\<close>

record clip_data =
  j_id :: "string option"
  j_title :: "string option"
  j_webpage_url :: "string option"
  j_thumbnail :: "string option"
  j_view_count :: "jvalue option"
  j_duration :: "pynum option"
  j_upload_date :: "string option"

datatype json_line = Malformed | NotObject | Object clip_data

text \<open>The dictionary that \<open>create_metadata_file\<close> hands to \<open>json.dump\<close>.\<close>

record metadata =
  m_title :: string
  m_description :: string
  m_tags :: "string list"
  m_category :: string
  m_visibility :: string
  m_original_url :: string
  m_views :: jvalue
  m_clip_created_at :: string
  m_downloaded_at :: string

text \<open>
  \<^item> \<open>exec\<close>: what an external program does when started with an argument vector in a
    given world: \<open>NotFound\<close> when there is no such program, else its exit status, standard
    output and standard error; and the files it leaves behind.
  \<^item> \<open>abspath\<close>: \<open>os.path.abspath\<close>, which depends on the working directory.
  \<^item> \<open>glob\<close>: \<open>Path(directory).glob(pattern)\<close>, the matching paths as strings.
  \<^item> \<open>str_exn\<close>: the text \<open>str(e)\<close> of an exception.
  \<^item> \<open>json_loads\<close>: \<open>json.loads\<close> on one line.
  \<^item> \<open>json_dump\<close>: the text \<open>json.dump(metadata, f, indent=2)\<close> writes.
  \<^item> \<open>clock\<close>: what the clock shows at its first, second, ... reading.
\<close>

record env =
  exec :: "world \<Rightarrow> string list \<Rightarrow> proc_result \<times> (string \<rightharpoonup> string)"
  abspath :: "string \<Rightarrow> string"
  glob :: "string \<Rightarrow> string \<Rightarrow> string list"
  str_exn :: "exn \<Rightarrow> string"
  json_loads :: "string \<Rightarrow> json_line"
  json_dump :: "metadata \<Rightarrow> string"
  clock :: "nat \<Rightarrow> datetime"

definition print :: "world \<Rightarrow> string \<Rightarrow> world" where
  "print w s = w\<lparr>printed := printed w @ [s]\<rparr>"

definition exists :: "world \<Rightarrow> string \<Rightarrow> bool" where
  "exists w p = (files w p \<noteq> None)"

text \<open>\<^verbatim>\<open>with open(path, 'w') as f: f.write(text)\<close>.\<close>

definition write_file :: "world \<Rightarrow> string \<Rightarrow> string \<Rightarrow> world" where
  "write_file w p text = w\<lparr>files := (files w)(p \<mapsto> text), written := written w @ [(p, text)]\<rparr>"

text \<open>\<^verbatim>\<open>os.remove(path)\<close> raises when there is no such file.\<close>

definition remove :: "world \<Rightarrow> string \<Rightarrow> exn + world" where
  "remove w p = (if exists w p then Inr (w\<lparr>files := (files w)(p := None)\<rparr>) else Inl FileNotFoundError)"

text \<open>\<^verbatim>\<open>subprocess.run(command, ...)\<close> without \<open>check\<close>: the call is recorded, the
  program's effect on the files is taken over.\<close>

definition subprocess_run :: "env \<Rightarrow> world \<Rightarrow> string list \<Rightarrow> proc_result \<times> world" where
  "subprocess_run e w argv =
     (let r = exec e w argv
      in (fst r, w\<lparr>files := snd r, procs := procs w @ [(argv, files w, fst r)]\<rparr>))"

text \<open>An argument that is \<open>None\<close> makes \<open>subprocess.run\<close> raise \<open>TypeError\<close> before any
  program is started.\<close>

fun argv_of :: "string option list \<Rightarrow> string list option" where
  "argv_of [] = Some []"
| "argv_of (None # _) = None"
| "argv_of (Some a # as) = map_option ((#) a) (argv_of as)"

text \<open>\<^verbatim>\<open>subprocess.run(command, check=True, ...)\<close>: a missing program raises
  \<open>FileNotFoundError\<close>, a non-zero exit status raises \<open>CalledProcessError\<close>.\<close>

definition run_checked :: "env \<Rightarrow> world \<Rightarrow> string option list \<Rightarrow> (exn + unit) \<times> world" where
  "run_checked e w command =
     (case argv_of command of
        None \<Rightarrow> (Inl TypeError, w)
      | Some argv \<Rightarrow>
          (case subprocess_run e w argv of
             (NotFound, w') \<Rightarrow> (Inl FileNotFoundError, w')
           | (Exited rc so se, w') \<Rightarrow>
               if rc \<noteq> 0 then (Inl (CalledProcessError argv rc), w') else (Inr (), w')))"

section \<open>video\_processor.py\<close>

text \<open>A path argument is a \<open>string option\<close>: \<open>None\<close> is Python's \<open>None\<close>, which
  \<open>batch_process\<close> can pass on as the input of an operation. A function's result is
  \<open>Inl\<close> of the exception it lets escape, or \<open>Inr\<close> of what it returns, where a
  returned \<open>None\<close> is \<open>None\<close>.\<close>

definition check_ffmpeg :: "env \<Rightarrow> world \<Rightarrow> bool \<times> world" where
  "check_ffmpeg e w =
     (case run_checked e w [Some ''ffmpeg'', Some ''-version''] of
        (Inr u, w') \<Rightarrow> (True, w')
      | (Inl x, w') \<Rightarrow>
          (False, print w'
             ''ffmpeg is not installed or not found in PATH. Please install it from https://ffmpeg.org/download.html''))"

definition list_video_files :: "env \<Rightarrow> string \<Rightarrow> string list" where
  "list_video_files e directory =
     concat (map (\<lambda>ext. glob e directory (''*'' @ ext)) [''.mp4'', ''.mov'', ''.avi'', ''.mkv''])"

text \<open>The default output path \<^verbatim>\<open>f"{filename}{suffix}{ext}"\<close> of an operation called
  without one; \<open>os.path.splitext(None)\<close> raises \<open>TypeError\<close>.\<close>

definition default_output :: "string option \<Rightarrow> string option \<Rightarrow> string \<Rightarrow> exn + string" where
  "default_output output_path input_path suffix =
     (case output_path of
        Some p \<Rightarrow> Inr p
      | None \<Rightarrow>
          (case input_path of
             None \<Rightarrow> Inl TypeError
           | Some i \<Rightarrow> Inr (fst (splitext i) @ suffix @ snd (splitext i))))"

text \<open>The \<open>try\<close> block shared by the operations: run the command; on success print
  and return the output path; on \<open>CalledProcessError\<close> print the error and return
  \<open>None\<close>; any other exception escapes.\<close>

definition try_ffmpeg ::
  "env \<Rightarrow> world \<Rightarrow> string option list \<Rightarrow> string \<Rightarrow> string \<Rightarrow> string \<Rightarrow> (exn + string option) \<times> world" where
  "try_ffmpeg e w command output_path saved failed =
     (case run_checked e w command of
        (Inr u, w') \<Rightarrow> (Inr (Some output_path), print w' (saved @ output_path))
      | (Inl (CalledProcessError c rc), w') \<Rightarrow>
          (Inr None, print w' (failed @ str_exn e (CalledProcessError c rc)))
      | (Inl x, w') \<Rightarrow> (Inl x, w'))"

definition trim_command ::
  "string option \<Rightarrow> string \<Rightarrow> pynum \<Rightarrow> pynum option \<Rightarrow> string option list" where
  "trim_command input_path output_path start_time duration =
     [Some ''ffmpeg'', Some ''-i'', input_path, Some ''-ss'', Some (str_num start_time)]
     @ (case duration of None \<Rightarrow> [] | Some d \<Rightarrow> [Some ''-t'', Some (str_num d)])
     @ [Some ''-c'', Some ''copy'', Some output_path, Some ''-y'']"

definition trim_video ::
  "env \<Rightarrow> world \<Rightarrow> string option \<Rightarrow> string option \<Rightarrow> pynum \<Rightarrow> pynum option
     \<Rightarrow> (exn + string option) \<times> world" where
  "trim_video e w input_path output_path start_time duration =
     (case check_ffmpeg e w of
        (False, w1) \<Rightarrow> (Inr None, w1)
      | (True, w1) \<Rightarrow>
          (case default_output output_path input_path ''_trimmed'' of
             Inl x \<Rightarrow> (Inl x, w1)
           | Inr out \<Rightarrow>
               try_ffmpeg e w1 (trim_command input_path out start_time duration) out
                 ''Trimmed video saved to: '' ''Error trimming video: ''))"

text \<open>The table of watermark positions, in the order of the source.\<close>

definition positions :: "(string \<times> string) list" where
  "positions =
     [(''topleft'', ''10:10''),
      (''topright'', ''w-tw-10:10''),
      (''bottomleft'', ''10:h-th-10''),
      (''bottomright'', ''w-tw-10:h-th-10''),
      (''center'', ''(w-tw)/2:(h-th)/2'')]"

text \<open>\<^verbatim>\<open>positions.get(position.lower(), positions["bottomright"])\<close>.\<close>

definition position_value :: "string \<Rightarrow> string" where
  "position_value position =
     (case map_of positions (lower position) of
        Some v \<Rightarrow> v
      | None \<Rightarrow> ''w-tw-10:h-th-10'')"

definition watermark_command ::
  "string option \<Rightarrow> string \<Rightarrow> pynum \<Rightarrow> string \<Rightarrow> string \<Rightarrow> string option list" where
  "watermark_command input_path watermark_text fontsize pos_value output_path =
     [Some ''ffmpeg'', Some ''-i'', input_path,
      Some ''-vf'',
      Some (''drawtext=text='' @ sq @ watermark_text @ sq @ '':fontcolor=white:fontsize=''
            @ str_num fontsize @ '':box=1:boxcolor=black@0.5:boxborderw=5:x='' @ pos_value),
      Some ''-codec:a'', Some ''copy'', Some output_path, Some ''-y'']"

definition add_watermark ::
  "env \<Rightarrow> world \<Rightarrow> string option \<Rightarrow> string \<Rightarrow> string option \<Rightarrow> string \<Rightarrow> pynum
     \<Rightarrow> (exn + string option) \<times> world" where
  "add_watermark e w input_path watermark_text output_path position fontsize =
     (case check_ffmpeg e w of
        (False, w1) \<Rightarrow> (Inr None, w1)
      | (True, w1) \<Rightarrow>
          (case default_output output_path input_path ''_watermarked'' of
             Inl x \<Rightarrow> (Inl x, w1)
           | Inr out \<Rightarrow>
               try_ffmpeg e w1
                 (watermark_command input_path watermark_text fontsize (position_value position) out)
                 out ''Watermarked video saved to: '' ''Error adding watermark: ''))"

definition temp_list :: string where
  "temp_list = ''concat_list.txt''"

definition concat_line :: "string \<Rightarrow> string" where
  "concat_line p = ''file '' @ sq @ p @ sq @ [CHR 0x0A]"

definition intro_command :: "string \<Rightarrow> string option list" where
  "intro_command output_path =
     [Some ''ffmpeg'', Some ''-f'', Some ''concat'', Some ''-safe'', Some ''0'',
      Some ''-i'', Some temp_list, Some ''-c'', Some ''copy'', Some output_path, Some ''-y'']"

text \<open>\<open>add_intro\<close>. The list file is opened for writing, which creates it, and the two
  lines are written in turn: when the input path is \<open>None\<close>, \<open>os.path.abspath\<close> raises
  \<open>TypeError\<close> after the first line, and the file stays behind with that line. On
  success the file is removed without a test, so a missing file raises there.\<close>

definition add_intro ::
  "env \<Rightarrow> world \<Rightarrow> string option \<Rightarrow> string \<Rightarrow> string option \<Rightarrow> (exn + string option) \<times> world" where
  "add_intro e w input_path intro_path output_path =
     (case check_ffmpeg e w of
        (False, w1) \<Rightarrow> (Inr None, w1)
      | (True, w1) \<Rightarrow>
          if \<not> exists w1 intro_path
          then (Inr None, print w1 (''Intro file not found: '' @ intro_path))
          else
            (case default_output output_path input_path ''_with_intro'' of
               Inl x \<Rightarrow> (Inl x, w1)
             | Inr out \<Rightarrow>
                 (case input_path of
                    None \<Rightarrow> (Inl TypeError, write_file w1 temp_list (concat_line (abspath e intro_path)))
                  | Some i \<Rightarrow>
                      let w2 = write_file w1 temp_list
                                 (concat_line (abspath e intro_path) @ concat_line (abspath e i))
                      in
                        (case run_checked e w2 (intro_command out) of
                           (Inr u, w3) \<Rightarrow>
                             (case remove (print w3 (''Video with intro saved to: '' @ out)) temp_list of
                                Inl x \<Rightarrow> (Inl x, print w3 (''Video with intro saved to: '' @ out))
                              | Inr w4 \<Rightarrow> (Inr (Some out), w4))
                         | (Inl (CalledProcessError c rc), w3) \<Rightarrow>
                             (let w4 = print w3 (''Error adding intro: '' @ str_exn e (CalledProcessError c rc))
                              in if exists w4 temp_list
                                 then (case remove w4 temp_list of
                                         Inl x \<Rightarrow> (Inl x, w4)
                                       | Inr w5 \<Rightarrow> (Inr None, w5))
                                 else (Inr None, w4))
                         | (Inl x, w3) \<Rightarrow> (Inl x, w3)))))"

definition convert_command :: "string option \<Rightarrow> string \<Rightarrow> string option list" where
  "convert_command input_path output_path =
     [Some ''ffmpeg'', Some ''-i'', input_path,
      Some ''-c:v'', Some ''libx264'', Some ''-c:a'', Some ''aac'',
      Some output_path, Some ''-y'']"

definition convert_format ::
  "env \<Rightarrow> world \<Rightarrow> string option \<Rightarrow> string \<Rightarrow> string option \<Rightarrow> (exn + string option) \<times> world" where
  "convert_format e w input_path output_format output_path =
     (case check_ffmpeg e w of
        (False, w1) \<Rightarrow> (Inr None, w1)
      | (True, w1) \<Rightarrow>
          (case (case output_path of
                   Some p \<Rightarrow> Inr p
                 | None \<Rightarrow>
                     (case input_path of
                        None \<Rightarrow> Inl TypeError
                      | Some i \<Rightarrow> Inr (fst (splitext i) @ ''.'' @ output_format))) of
             Inl x \<Rightarrow> (Inl x, w1)
           | Inr out \<Rightarrow>
               try_ffmpeg e w1 (convert_command input_path out) out
                 ''Converted video saved to: '' ''Error converting video: ''))"

text \<open>The table of platforms, in the order of the source: name, resolution,
  description.\<close>

definition platform_settings :: "(string \<times> string \<times> string) list" where
  "platform_settings =
     [(''tiktok'', ''1080:1920'', ''TikTok (vertical 9:16)''),
      (''instagram'', ''1080:1080'', ''Instagram (square 1:1)''),
      (''instagram_story'', ''1080:1920'', ''Instagram Story (vertical 9:16)''),
      (''youtube'', ''1920:1080'', ''YouTube (horizontal 16:9)'')]"

definition resize_command :: "string option \<Rightarrow> string \<Rightarrow> string \<Rightarrow> string option list" where
  "resize_command input_path resolution output_path =
     [Some ''ffmpeg'', Some ''-i'', input_path,
      Some ''-vf'',
      Some (''scale='' @ resolution @ '':force_original_aspect_ratio=decrease,pad='' @ resolution
            @ '':(ow-iw)/2:(oh-ih)/2''),
      Some ''-c:a'', Some ''copy'', Some output_path, Some ''-y'']"

definition resize_for_platform ::
  "env \<Rightarrow> world \<Rightarrow> string option \<Rightarrow> string \<Rightarrow> string option \<Rightarrow> (exn + string option) \<times> world" where
  "resize_for_platform e w input_path platform output_path =
     (case check_ffmpeg e w of
        (False, w1) \<Rightarrow> (Inr None, w1)
      | (True, w1) \<Rightarrow>
          (case map_of platform_settings (lower platform) of
             None \<Rightarrow>
               (Inr None,
                print (print w1 (''Unknown platform: '' @ platform))
                  (''Supported platforms: '' @ str_join '', '' (map fst platform_settings)))
           | Some (resolution, description) \<Rightarrow>
               (case default_output output_path input_path (''_for_'' @ platform) of
                  Inl x \<Rightarrow> (Inl x, w1)
                | Inr out \<Rightarrow>
                    try_ffmpeg e w1 (resize_command input_path resolution out) out
                      (''Resized video for '' @ description @ '' saved to: '') ''Error resizing video: '')))"

text \<open>An entry of the \<open>operations\<close> list is a dictionary read with \<open>get\<close>: every key
  may be absent. The values are taken to have the types the operations expect.\<close>

record operation =
  op_type :: "string option"
  op_start_time :: "pynum option"
  op_duration :: "pynum option"
  op_text :: "string option"
  op_position :: "string option"
  op_fontsize :: "pynum option"
  op_intro_path :: "string option"
  op_format :: "string option"
  op_platform :: "string option"

text \<open>\<^verbatim>\<open>d.get(key, default)\<close> on such a key.\<close>

definition get_or :: "'a option \<Rightarrow> 'a \<Rightarrow> 'a" where
  "get_or v d = (case v of None \<Rightarrow> d | Some x \<Rightarrow> x)"

text \<open>One round of the inner loop of \<open>batch_process\<close>: the chain of \<open>if\<close>/\<open>elif\<close> on
  the operation's type. The result is the new \<open>current_input\<close>; an operation of any
  other type leaves it as it is.\<close>

definition apply_operation ::
  "env \<Rightarrow> world \<Rightarrow> string \<Rightarrow> string \<Rightarrow> string option \<Rightarrow> operation \<Rightarrow> (exn + string option) \<times> world" where
  "apply_operation e w output_dir filename current_input operation =
     (let stem = fst (splitext filename); ext = snd (splitext filename) in
      if op_type operation = Some ''trim'' then
        trim_video e w current_input
          (Some (path_join output_dir (stem @ ''_trimmed'' @ ext)))
          (get_or (op_start_time operation) (PyInt 0))
          (op_duration operation)
      else if op_type operation = Some ''watermark'' then
        add_watermark e w current_input
          (get_or (op_text operation) [])
          (Some (path_join output_dir (stem @ ''_watermarked'' @ ext)))
          (get_or (op_position operation) ''bottomright'')
          (get_or (op_fontsize operation) (PyInt 24))
      else if op_type operation = Some ''intro'' then
        add_intro e w current_input
          (get_or (op_intro_path operation) [])
          (Some (path_join output_dir (stem @ ''_with_intro'' @ ext)))
      else if op_type operation = Some ''convert'' then
        convert_format e w current_input
          (get_or (op_format operation) ''mp4'')
          (Some (path_join output_dir (stem @ ''.'' @ get_or (op_format operation) ''mp4'')))
      else if op_type operation = Some ''resize'' then
        resize_for_platform e w current_input
          (get_or (op_platform operation) ''youtube'')
          (Some (path_join output_dir
             (stem @ ''_for_'' @ get_or (op_platform operation) ''youtube'' @ ext)))
      else (Inr current_input, w))"

text \<open>The inner loop \<^verbatim>\<open>for operation in operations\<close>: there is no \<open>break\<close>; an
  exception of an operation ends the loop, as it ends the whole call.\<close>

fun run_operations ::
  "env \<Rightarrow> world \<Rightarrow> string \<Rightarrow> string \<Rightarrow> string option \<Rightarrow> operation list \<Rightarrow> (exn + string option) \<times> world" where
  "run_operations e w output_dir filename current_input [] = (Inr current_input, w)"
| "run_operations e w output_dir filename current_input (operation # operations) =
     (case apply_operation e w output_dir filename current_input operation of
        (Inl x, w') \<Rightarrow> (Inl x, w')
      | (Inr current_input', w') \<Rightarrow> run_operations e w' output_dir filename current_input' operations)"

text \<open>\<^verbatim>\<open>if current_input and current_input != video_file\<close>: \<open>None\<close> and the empty
  string are false.\<close>

definition chain_completed :: "string option \<Rightarrow> string \<Rightarrow> bool" where
  "chain_completed current_input video_file =
     (case current_input of
        None \<Rightarrow> False
      | Some p \<Rightarrow> p \<noteq> [] \<and> p \<noteq> video_file)"

text \<open>The outer loop \<^verbatim>\<open>for video_file in video_files\<close>, with \<open>processed_files\<close> as
  accumulator.\<close>

fun process_files ::
  "env \<Rightarrow> world \<Rightarrow> string \<Rightarrow> operation list \<Rightarrow> string list \<Rightarrow> string list \<Rightarrow> (exn + string list) \<times> world" where
  "process_files e w output_dir operations [] processed_files = (Inr processed_files, w)"
| "process_files e w output_dir operations (video_file # video_files) processed_files =
     (case run_operations e w output_dir (basename video_file) (Some video_file) operations of
        (Inl x, w') \<Rightarrow> (Inl x, w')
      | (Inr current_input, w') \<Rightarrow>
          process_files e w' output_dir operations video_files
            (if chain_completed current_input video_file
             then processed_files @ [the current_input] else processed_files))"

definition batch_process ::
  "env \<Rightarrow> world \<Rightarrow> string \<Rightarrow> operation list \<Rightarrow> string option \<Rightarrow> (exn + string list) \<times> world" where
  "batch_process e w input_dir operations output_dir =
     process_files e w
       (case output_dir of None \<Rightarrow> path_join input_dir ''processed'' | Some d \<Rightarrow> d)
       operations (list_video_files e input_dir) []"

section \<open>twitch\_clip\_downloader.py\<close>

text \<open>A clip, the dictionary \<open>scrape_clips\<close> builds: all eight keys are always there.\<close>

record clip =
  clip_id :: string
  title :: string
  url :: string
  thumbnail_url :: string
  view_count :: jvalue
  duration :: pynum
  created_at :: string
  broadcaster_name :: string

definition tick_mark :: string where
  \<comment> \<open>the character U+2713, outside the range of \<open>char\<close>, as its three UTF-8 bytes\<close>
  "tick_mark = [CHR 0xE2, CHR 0x9C, CHR 0x93]"

definition cross_mark :: string where
  \<comment> \<open>the character U+2717, as its three UTF-8 bytes\<close>
  "cross_mark = [CHR 0xE2, CHR 0x9C, CHR 0x97]"

text \<open>\<open>check_dependencies\<close>: \<open>sys.exit(1)\<close> raises \<open>SystemExit\<close>.\<close>

definition check_dependencies :: "env \<Rightarrow> world \<Rightarrow> (exn + unit) \<times> world" where
  "check_dependencies e w =
     (case run_checked e w [Some ''yt-dlp'', Some ''--version''] of
        (Inl x, w1) \<Rightarrow>
          (Inl (SystemExit 1),
           print w1 (cross_mark @ '' yt-dlp is not installed. Please install it with ''
                     @ sq @ ''pip install yt-dlp'' @ sq))
      | (Inr u, w1) \<Rightarrow>
          (case run_checked e (print w1 (tick_mark @ '' yt-dlp is installed''))
                  [Some ''ffmpeg'', Some ''-version''] of
             (Inl x, w2) \<Rightarrow>
               (Inl (SystemExit 1),
                print w2 (cross_mark
                  @ '' ffmpeg is not installed. Please install it from https://ffmpeg.org/download.html''))
           | (Inr u, w2) \<Rightarrow> (Inr (), print w2 (tick_mark @ '' ffmpeg is installed''))))"

definition get_clips_url :: "string \<Rightarrow> string \<Rightarrow> string" where
  "get_clips_url username period =
     ''https://www.twitch.tv/'' @ lower (strip username) @ ''/clips?filter=clips&range='' @ period"

text \<open>The listing command of \<open>scrape_clips\<close>.\<close>

definition listing_command :: "string \<Rightarrow> int \<Rightarrow> int \<Rightarrow> string list" where
  "listing_command username limit min_views =
     [''yt-dlp'', ''--flat-playlist'', ''--dump-json'',
      ''https://www.twitch.tv/'' @ username @ ''/clips'',
      ''--match-filter'', ''view_count >= '' @ str_int min_views,
      ''--playlist-end'', str_int limit]"

text \<open>The dictionary built from a parsed line, with the defaults of \<open>get\<close>.\<close>

definition clip_of :: "clip_data \<Rightarrow> string \<Rightarrow> clip" where
  "clip_of clip_data username =
     \<lparr>clip_id = get_or (j_id clip_data) [],
      title = get_or (j_title clip_data) ''Untitled Clip'',
      url = get_or (j_webpage_url clip_data) [],
      thumbnail_url = get_or (j_thumbnail clip_data) [],
      view_count = get_or (j_view_count clip_data) (JInt 0),
      duration = get_or (j_duration clip_data) (PyInt 0),
      created_at = get_or (j_upload_date clip_data) [],
      broadcaster_name = username\<rparr>"

text \<open>The loop over the lines, with \<open>clips\<close> as accumulator: an empty line is passed
  over; a line that \<open>json.loads\<close> rejects is passed over (\<open>except json.JSONDecodeError:
  continue\<close>); on a JSON value that is not an object, \<open>clip_data.get\<close> raises
  \<open>AttributeError\<close>, which that handler does not catch.\<close>

fun parse_lines :: "env \<Rightarrow> string \<Rightarrow> string list \<Rightarrow> clip list \<Rightarrow> exn + clip list" where
  "parse_lines e username [] clips = Inr clips"
| "parse_lines e username (line # lines) clips =
     (if line = [] then parse_lines e username lines clips
      else (case json_loads e line of
              Malformed \<Rightarrow> parse_lines e username lines clips
            | NotObject \<Rightarrow> Inl AttributeError
            | Object clip_data \<Rightarrow> parse_lines e username lines (clips @ [clip_of clip_data username])))"

text \<open>What follows the call of the listing tool in \<open>scrape_clips\<close>. Every exception
  inside the \<open>try\<close> ends in the handler that prints it and returns the empty list: a
  missing \<open>yt-dlp\<close>, and the \<open>AttributeError\<close> of the loop.\<close>

definition listed :: "env \<Rightarrow> world \<Rightarrow> string \<Rightarrow> proc_result \<Rightarrow> clip list \<times> world" where
  "listed e w username r =
     (case r of
        NotFound \<Rightarrow> ([], print w (''Error scraping clips: '' @ str_exn e FileNotFoundError))
      | Exited returncode stdout stderr \<Rightarrow>
          if returncode \<noteq> 0 then ([], print w (''Error running yt-dlp: '' @ stderr))
          else (case parse_lines e username (split_nl (strip stdout)) [] of
                  Inl x \<Rightarrow> ([], print w (''Error scraping clips: '' @ str_exn e x))
                | Inr clips \<Rightarrow>
                    (clips, print w (''Found '' @ str_nat (length clips) @ '' clips.''))))"

text \<open>\<open>scrape_clips\<close>. The period computed from \<open>hours\<close> goes into the printed URL
  only.\<close>

definition scrape_clips ::
  "env \<Rightarrow> world \<Rightarrow> string \<Rightarrow> int \<Rightarrow> int \<Rightarrow> int \<Rightarrow> clip list \<times> world" where
  "scrape_clips e w username hours limit min_views =
     (let period = (if hours = 7 * 24 then ''7d''
                    else if hours = 30 * 24 then ''30d''
                    else if hours = 90 * 24 then ''all''
                    else ''24h'');
          w1 = print w (''Fetching clips from: '' @ get_clips_url username period)
      in case subprocess_run e w1 (listing_command username limit min_views) of
           (r, w2) \<Rightarrow> listed e w2 username r)"




text \<open>The download command of \<open>download_clip\<close>.\<close>

definition download_command :: "string \<Rightarrow> string \<Rightarrow> string list" where
  "download_command output_path clip_url = [''yt-dlp'', ''-o'', output_path, ''-f'', ''best'', clip_url]"

definition clip_filename :: "clip \<Rightarrow> string \<Rightarrow> string" where
  "clip_filename c output_format =
     broadcaster_name c @ '' - '' @ sanitized_title (title c) @ ''.'' @ output_format"

text \<open>\<open>download_clip\<close>: the path of the file, or \<open>None\<close>.\<close>

definition download_clip :: "env \<Rightarrow> world \<Rightarrow> clip \<Rightarrow> string \<Rightarrow> string \<Rightarrow> string option \<times> world" where
  "download_clip e w c output_dir output_format =
     (if url c = [] then (None, print w (''Error: No URL for clip '' @ title c))
      else
        let output_path = path_join output_dir (clip_filename c output_format) in
        if exists w output_path
        then (Some output_path, print w (''Clip already exists: '' @ output_path))
        else
          (case subprocess_run e (print w (''Downloading: '' @ title c))
                  (download_command output_path (url c)) of
             (NotFound, w2) \<Rightarrow>
               (None, print w2 (''Error downloading clip: '' @ str_exn e FileNotFoundError))
           | (Exited returncode stdout stderr, w2) \<Rightarrow>
               if returncode \<noteq> 0
               then (None, print w2 (''Error downloading clip: '' @ stderr))
               else if \<not> exists w2 output_path
               then (None, print w2 (''Download finished but file not found: '' @ output_path))
               else (Some output_path, print w2 (''Successfully downloaded: '' @ output_path))))"

definition datetime_now :: "env \<Rightarrow> world \<Rightarrow> datetime \<times> world" where
  "datetime_now e w = (clock e (ticks w), w\<lparr>ticks := Suc (ticks w)\<rparr>)"

definition metadata_of :: "clip \<Rightarrow> datetime \<Rightarrow> metadata" where
  "metadata_of c now =
     \<lparr>m_title = broadcaster_name c @ '' - '' @ title c,
      m_description = ''Clip from '' @ broadcaster_name c @ '' on Twitch'' @ [CHR 0x0A, CHR 0x0A]
                      @ ''Original clip: '' @ url c,
      m_tags = [lower (broadcaster_name c), ''twitch'', ''gaming'', ''clip'', ''highlights''],
      m_category = ''Gaming'',
      m_visibility = ''public'',
      m_original_url = url c,
      m_views = view_count c,
      m_clip_created_at = created_at c,
      m_downloaded_at = isoformat now\<rparr>"

definition create_metadata_file :: "env \<Rightarrow> world \<Rightarrow> clip \<Rightarrow> string \<Rightarrow> string option \<times> world" where
  "create_metadata_file e w c video_path =
     (let output_path = rsplit_dot video_path @ ''.json'';
          (now, w1) = datetime_now e w;
          w2 = write_file w1 output_path (json_dump e (metadata_of c now))
      in (Some output_path, print w2 (''Created metadata file: '' @ output_path)))"

definition nl :: string where
  "nl = [CHR 0x0A]"

definition instructions_text :: "string \<Rightarrow> nat \<Rightarrow> string" where
  "instructions_text directory n =
     ''==== UPLOAD INSTRUCTIONS ===='' @ nl @ nl
     @ ''Downloaded clips directory: '' @ directory @ nl
     @ ''Number of clips: '' @ str_nat n @ nl @ nl
     @ ''=== YouTube Instructions ==='' @ nl
     @ ''1. Go to https://studio.youtube.com/'' @ nl
     @ ''2. Click '' @ sq @ ''CREATE'' @ sq @ '' > '' @ sq @ ''Upload video'' @ sq @ nl
     @ ''3. Select the downloaded clip file'' @ nl
     @ ''4. Use the metadata file (JSON) to fill in title, description, and tags'' @ nl
     @ ''5. Set visibility to Public'' @ nl
     @ ''6. Click '' @ sq @ ''NEXT'' @ sq @ '' through the screens and then '' @ sq @ ''PUBLISH'' @ sq @ nl
     @ nl
     @ ''=== TikTok Instructions ==='' @ nl
     @ ''1. Open the TikTok app on your device'' @ nl
     @ ''2. Tap the '' @ sq @ ''+'' @ sq @ '' button to create a new video'' @ nl
     @ ''3. Tap '' @ sq @ ''Upload'' @ sq @ '' and select the downloaded clip'' @ nl
     @ ''4. Ensure the clip is under 60 seconds (TikTok'' @ sq @ ''s limit)'' @ nl
     @ ''5. Add relevant text, effects, and hashtags'' @ nl
     @ ''6. Tap '' @ sq @ ''Next'' @ sq @ '' and then '' @ sq @ ''Post'' @ sq @ nl
     @ nl
     @ ''=== Instagram Instructions ==='' @ nl
     @ ''1. Open the Instagram app on your device'' @ nl
     @ ''2. Tap the '' @ sq @ ''+'' @ sq @ '' button at the bottom and select '' @ sq @ ''Post'' @ sq @ nl
     @ ''3. Select the downloaded clip'' @ nl
     @ ''4. Apply filters if desired'' @ nl
     @ ''5. Write a caption including attribution to the original creator'' @ nl
     @ ''6. Add relevant hashtags and location'' @ nl
     @ ''7. Tap '' @ sq @ ''Share'' @ sq @ nl
     @ nl
     @ ''==== IMPORTANT NOTES ===='' @ nl
     @ ''1. Always give credit to the original content creator'' @ nl
     @ ''2. Follow each platform'' @ sq @ ''s community guidelines'' @ nl
     @ ''3. Consider adding your own branding/intro if reusing content regularly'' @ nl
     @ ''4. Check each platform'' @ sq @ ''s specific size/length/format requirements'' @ nl"

definition generate_platform_instructions ::
  "env \<Rightarrow> world \<Rightarrow> (clip \<times> string) list \<Rightarrow> string \<Rightarrow> world" where
  "generate_platform_instructions e w downloaded_clips output_dir =
     (if downloaded_clips = [] then w
      else
        let instructions_path = path_join output_dir ''upload_instructions.txt'';
            w1 = write_file w instructions_path
                   (instructions_text (abspath e output_dir) (length downloaded_clips))
        in print w1 (''Created upload instructions: '' @ instructions_path))"

text \<open>\<^verbatim>\<open>clips.sort(key=lambda x: x.get('view_count', 0), reverse=True)\<close>. Python's sort
  is stable, with \<open>reverse=True\<close> too: the result is in descending order of the key, and
  clips of equal key keep their order. It compares the keys with \<open><\<close>, and the
  \<open>TypeError\<close> of a comparison ends the sort. It is written here as an insertion sort: a
  clip is put before the first clip of the sorted rest that its own count is not smaller
  than. A list of one clip is sorted without a comparison; in a longer list every clip is
  compared at least once, so the sort raises exactly when the counts are not all integers
  or all strings.\<close>

fun insert_clip :: "clip \<Rightarrow> clip list \<Rightarrow> exn + clip list" where
  "insert_clip c [] = Inr [c]"
| "insert_clip c (d # ds) =
     (case py_less (view_count c) (view_count d) of
        None \<Rightarrow> Inl TypeError
      | Some smaller \<Rightarrow>
          if smaller
          then (case insert_clip c ds of Inl x \<Rightarrow> Inl x | Inr ranked \<Rightarrow> Inr (d # ranked))
          else Inr (c # d # ds))"

fun sort_by_views :: "clip list \<Rightarrow> exn + clip list" where
  "sort_by_views [] = Inr []"
| "sort_by_views (c # cs) =
     (case sort_by_views cs of Inl x \<Rightarrow> Inl x | Inr ranked \<Rightarrow> insert_clip c ranked)"

text \<open>The arguments of the command line.\<close>

record args =
  args_streamer :: string
  args_hours :: int
  args_limit :: int
  args_output_dir :: string
  args_min_views :: int
  args_metadata :: bool
  args_format :: string

text \<open>The loop \<^verbatim>\<open>for i, clip in enumerate(clips, 1)\<close> of \<open>main\<close>, with
  \<open>downloaded_clips\<close> as accumulator; \<open>n\<close> is \<open>len(clips)\<close>.\<close>

fun download_all ::
  "env \<Rightarrow> world \<Rightarrow> args \<Rightarrow> nat \<Rightarrow> nat \<Rightarrow> clip list \<Rightarrow> (clip \<times> string) list
     \<Rightarrow> (clip \<times> string) list \<times> world" where
  "download_all e w a n i [] downloaded_clips = (downloaded_clips, w)"
| "download_all e w a n i (c # cs) downloaded_clips =
     (let w1 = print w ([CHR 0x0A] @ ''Processing clip '' @ str_nat i @ ''/'' @ str_nat n);
          w2 = print w1 (''Title: '' @ title c);
          w3 = print w2 (''Views: '' @ str_value (view_count c))
      in case download_clip e w3 c (args_output_dir a) (args_format a) of
           (None, w4) \<Rightarrow> download_all e w4 a n (Suc i) cs downloaded_clips
         | (Some output_path, w4) \<Rightarrow>
             (let w5 = (if output_path \<noteq> [] \<and> args_metadata a
                        then snd (create_metadata_file e w4 c output_path) else w4)
              in download_all e w5 a n (Suc i) cs
                   (if output_path \<noteq> [] then downloaded_clips @ [(c, output_path)]
                    else downloaded_clips)))"

definition banner :: "world \<Rightarrow> args \<Rightarrow> world" where
  "banner w a =
     print (print (print (print (print (print w
       ''=== Twitch Clip Downloader ==='')
       (''Target streamer: '' @ args_streamer a))
       (''Looking back '' @ str_int (args_hours a) @ '' hours''))
       (''Clip limit: '' @ str_int (args_limit a)))
       (''Minimum views: '' @ str_int (args_min_views a)))
       []"

text \<open>\<open>main\<close>, after the arguments are parsed. The sort is under no \<open>try\<close>: its
  \<open>TypeError\<close> leaves \<open>main\<close>.\<close>

definition main :: "env \<Rightarrow> world \<Rightarrow> args \<Rightarrow> (exn + unit) \<times> world" where
  "main e w a =
     (case check_dependencies e w of
        (Inl x, w1) \<Rightarrow> (Inl x, w1)
      | (Inr u, w1) \<Rightarrow>
          (case scrape_clips e (banner w1 a) (args_streamer a) (args_hours a) (args_limit a)
                  (args_min_views a) of
             (clips, w2) \<Rightarrow>
               if clips = []
               then (Inr (),
                     print w2 (''No clips found for '' @ args_streamer a @ '' in the last ''
                               @ str_int (args_hours a) @ '' hours.''))
               else
                 (case sort_by_views clips of
                    Inl x \<Rightarrow> (Inl x, w2)
                  | Inr ranked \<Rightarrow>
                      (case download_all e w2 a (length ranked) 1 ranked [] of
                         (downloaded_clips, w3) \<Rightarrow>
                           (Inr (),
                            generate_platform_instructions e
                              (print w3 ([CHR 0x0A] @ ''Downloaded '' @ str_nat (length downloaded_clips)
                                         @ ''/'' @ str_nat (length ranked) @ '' clips to ''
                                         @ abspath e (args_output_dir a)))
                              downloaded_clips (args_output_dir a))))))"

section \<open>simple\_gui.py\<close>

text \<open>The methods of \<open>TwitchClipDownloaderGUI\<close> that list and download, with the prefix
  \<open>gui_\<close>. \<open>self.log\<close> reads the clock and prints the message behind the time.\<close>

definition gui_log :: "env \<Rightarrow> world \<Rightarrow> string \<Rightarrow> world" where
  "gui_log e w message =
     (case datetime_now e w of
        (now, w1) \<Rightarrow> print w1 (''['' @ strftime_HMS now @ ''] '' @ message))"

definition root_after :: "world \<Rightarrow> gui_call \<Rightarrow> world" where
  "root_after w c = w\<lparr>gui := gui w @ [c]\<rparr>"

text \<open>\<open>get_date_filter\<close>: every period but \<open>7d\<close> and \<open>30d\<close> looks back 24 hours.\<close>

definition get_date_filter :: "env \<Rightarrow> world \<Rightarrow> string \<Rightarrow> (exn + string) \<times> world" where
  "get_date_filter e w period =
     (case datetime_now e w of
        (now, w1) \<Rightarrow>
          (case minus_days now (if period = ''24h'' then 1
                                else if period = ''7d'' then 7
                                else if period = ''30d'' then 30
                                else 1) of
             None \<Rightarrow> (Inl OverflowError, w1)
           | Some date \<Rightarrow> (Inr (strftime_Ymd date), w1)))"

definition hours_display :: "string \<Rightarrow> string" where
  "hours_display period =
     (if period = ''24h'' then str_int 24
      else if period = ''7d'' then str_int (7 * 24)
      else if period = ''30d'' then str_int (30 * 24)
      else if period = ''all'' then ''all time''
      else period)"

text \<open>What follows the call of the listing tool in \<open>scrape_clips\<close>: parsing, counting,
  sorting. The sort is inside the \<open>try\<close>, after the line that logs the count: when it
  raises \<open>TypeError\<close>, the handler logs the error and the method returns the empty
  list.\<close>

definition gui_listed :: "env \<Rightarrow> world \<Rightarrow> string \<Rightarrow> proc_result \<Rightarrow> clip list \<times> world" where
  "gui_listed e w username r =
     (case r of
        NotFound \<Rightarrow> ([], gui_log e w (''Error scraping clips: '' @ str_exn e FileNotFoundError))
      | Exited returncode stdout stderr \<Rightarrow>
          if returncode \<noteq> 0 then ([], gui_log e w (''Error running yt-dlp: '' @ stderr))
          else (case parse_lines e username (split_nl (strip stdout)) [] of
                  Inl x \<Rightarrow> ([], gui_log e w (''Error scraping clips: '' @ str_exn e x))
                | Inr clips \<Rightarrow>
                    (let w1 = gui_log e w (''Found '' @ str_nat (length clips) @ '' clips'')
                     in case sort_by_views clips of
                          Inl x \<Rightarrow> ([], gui_log e w1 (''Error scraping clips: '' @ str_exn e x))
                        | Inr ranked \<Rightarrow> (ranked, w1))))"

definition gui_scrape_clips ::
  "env \<Rightarrow> world \<Rightarrow> string \<Rightarrow> string \<Rightarrow> int \<Rightarrow> int \<Rightarrow> clip list \<times> world" where
  "gui_scrape_clips e w username period limit min_views =
     (let w1 = gui_log e w (''Searching for clips from '' @ username @ '' ('' @ period @ '')...'');
          w2 = gui_log e w1 (''Looking back '' @ hours_display period @ '' hours/period'')
      in if period \<noteq> ''all''
         then (case get_date_filter e w2 period of
                 (Inl x, w3) \<Rightarrow> ([], gui_log e w3 (''Error scraping clips: '' @ str_exn e x))
               | (Inr date, w3) \<Rightarrow>
                   (case subprocess_run e (gui_log e w3 ''Running clip search...'')
                           (listing_command username limit min_views @ [''--dateafter'', date]) of
                      (r, w4) \<Rightarrow> gui_listed e w4 username r))
         else (case subprocess_run e (gui_log e w2 ''Running clip search...'')
                      (listing_command username limit min_views) of
                 (r, w4) \<Rightarrow> gui_listed e w4 username r))"

text \<open>\<open>download_clip\<close> of the window: \<open>ffmpeg_path\<close> is the attribute of that name,
  \<open>None\<close> when it is not set.\<close>

definition gui_download_clip ::
  "env \<Rightarrow> world \<Rightarrow> string option \<Rightarrow> clip \<Rightarrow> string \<Rightarrow> string \<Rightarrow> string option \<times> world" where
  "gui_download_clip e w ffmpeg_path c output_dir output_format =
     (if url c = [] then (None, gui_log e w (''Error: No URL for clip '' @ title c))
      else
        let output_path = path_join output_dir (clip_filename c output_format) in
        if exists w output_path
        then (Some output_path, gui_log e w (''Clip already exists: '' @ output_path))
        else
          (case subprocess_run e (gui_log e w (''Downloading: '' @ title c))
                  (download_command output_path (url c)
                   @ (case ffmpeg_path of
                        None \<Rightarrow> []
                      | Some p \<Rightarrow> if p = [] then [] else [''--ffmpeg-location'', p])) of
             (NotFound, w2) \<Rightarrow>
               (None, gui_log e w2 (''Error downloading clip: '' @ str_exn e FileNotFoundError))
           | (Exited returncode stdout stderr, w2) \<Rightarrow>
               if returncode \<noteq> 0
               then (None, gui_log e w2 (''Error downloading clip: '' @ stderr))
               else if \<not> exists w2 output_path
               then (None, gui_log e w2 (''Download finished but file not found: '' @ output_path))
               else (Some output_path, gui_log e w2 (''Successfully downloaded: '' @ output_path))))"

definition gui_create_metadata_file ::
  "env \<Rightarrow> world \<Rightarrow> clip \<Rightarrow> string \<Rightarrow> string option \<times> world" where
  "gui_create_metadata_file e w c video_path =
     (let output_path = rsplit_dot video_path @ ''.json'';
          (now, w1) = datetime_now e w;
          w2 = write_file w1 output_path (json_dump e (metadata_of c now))
      in (Some output_path, gui_log e w2 (''Created metadata file: '' @ output_path)))"

definition gui_generate_platform_instructions ::
  "env \<Rightarrow> world \<Rightarrow> (clip \<times> string) list \<Rightarrow> string \<Rightarrow> world" where
  "gui_generate_platform_instructions e w downloaded_clips output_dir =
     (if downloaded_clips = [] then w
      else
        let instructions_path = path_join output_dir ''upload_instructions.txt'';
            w1 = write_file w instructions_path
                   (instructions_text (abspath e output_dir) (length downloaded_clips))
        in gui_log e w1 (''Created upload instructions: '' @ instructions_path))"

text \<open>The values of the form, and the \<open>ffmpeg_path\<close> attribute.\<close>

record form =
  streamer_var :: string
  period_var :: string
  limit_var :: int
  min_views_var :: int
  format_var :: string
  output_dir_var :: string
  create_metadata_var :: bool
  generate_instructions_var :: bool
  ffmpeg_path_attr :: "string option"

fun gui_download_all ::
  "env \<Rightarrow> world \<Rightarrow> form \<Rightarrow> nat \<Rightarrow> nat \<Rightarrow> clip list \<Rightarrow> (clip \<times> string) list
     \<Rightarrow> (clip \<times> string) list \<times> world" where
  "gui_download_all e w f n i [] downloaded_clips = (downloaded_clips, w)"
| "gui_download_all e w f n i (c # cs) downloaded_clips =
     (let w1 = gui_log e w ([CHR 0x0A] @ ''Processing clip '' @ str_nat i @ ''/'' @ str_nat n);
          w2 = gui_log e w1 (''Title: '' @ title c);
          w3 = gui_log e w2 (''Views: '' @ str_value (view_count c));
          w3' = root_after w3 (SetStatus (''Downloading '' @ str_nat i @ ''/'' @ str_nat n @ '' clips''))
      in case gui_download_clip e w3' (ffmpeg_path_attr f) c (output_dir_var f) (format_var f) of
           (None, w4) \<Rightarrow> gui_download_all e w4 f n (Suc i) cs downloaded_clips
         | (Some output_path, w4) \<Rightarrow>
             (let w5 = (if output_path \<noteq> [] \<and> create_metadata_var f
                        then snd (gui_create_metadata_file e w4 c output_path) else w4)
              in gui_download_all e w5 f n (Suc i) cs
                   (if output_path \<noteq> [] then downloaded_clips @ [(c, output_path)]
                    else downloaded_clips)))"

text \<open>\<open>download_clips_thread\<close>. The \<open>finally\<close> clause hands \<open>enable_buttons\<close> to the
  window on every way out, the early return included.\<close>

definition download_clips_thread :: "env \<Rightarrow> world \<Rightarrow> form \<Rightarrow> world" where
  "download_clips_thread e w f =
     (let streamer = strip (streamer_var f);
          w1 = gui_log e w (''Searching for clips from '' @ streamer @ '' ('' @ period_var f @ '')...'')
      in case gui_scrape_clips e w1 streamer (period_var f) (limit_var f) (min_views_var f) of
           (clips, w2) \<Rightarrow>
             if clips = []
             then root_after
                    (root_after
                       (root_after
                          (gui_log e w2 (''No clips found for '' @ streamer @ '' in the selected time period.''))
                          (SetStatus ''No clips found''))
                       EnableButtons)
                    EnableButtons
             else
               (case gui_download_all e w2 f (length clips) 1 clips [] of
                  (downloaded_clips, w3) \<Rightarrow>
                    (let w4 = gui_log e w3
                                ([CHR 0x0A] @ ''Downloaded '' @ str_nat (length downloaded_clips) @ ''/''
                                 @ str_nat (length clips) @ '' clips to '' @ abspath e (output_dir_var f));
                         w5 = (if generate_instructions_var f
                               then gui_generate_platform_instructions e w4 downloaded_clips (output_dir_var f)
                               else w4);
                         w6 = root_after w5
                                (SetStatus (''Completed: '' @ str_nat (length downloaded_clips)
                                            @ '' clips downloaded''));
                         w7 = root_after w6
                                (ShowInfo ''Download Complete''
                                   (''Successfully downloaded '' @ str_nat (length downloaded_clips)
                                    @ '' clips.''))
                     in root_after w7 EnableButtons)))"

section \<open>Sample environments\<close>

text \<open>Concrete worlds and environments on which the theorems below are run.\<close>

definition no_operation :: operation where
  "no_operation =
     \<lparr>op_type = None, op_start_time = None, op_duration = None, op_text = None,
      op_position = None, op_fontsize = None, op_intro_path = None, op_format = None,
      op_platform = None\<rparr>"

definition world0 :: world where
  "world0 = \<lparr>files = Map.empty, procs = [], written = [], printed = [], ticks = 0, gui = []\<rparr>"

text \<open>The lines \<^verbatim>\<open>{"view_count": null}\<close> and \<^verbatim>\<open>{"view_count": 3}\<close>.\<close>

definition line_null :: string where
  "line_null = ''{'' @ [CHR 0x22] @ ''view_count'' @ [CHR 0x22] @ '': null}''"

definition line_three :: string where
  "line_three = ''{'' @ [CHR 0x22] @ ''view_count'' @ [CHR 0x22] @ '': 3}''"

definition no_keys :: clip_data where
  "no_keys =
     \<lparr>j_id = None, j_title = None, j_webpage_url = None, j_thumbnail = None,
      j_view_count = None, j_duration = None, j_upload_date = None\<rparr>"

text \<open>A parser that agrees with \<open>json.loads\<close> on the six lines the examples use: the
  empty object, the two objects with a view count, the number 5, and the malformed lines
  of one brace and of four letters.\<close>

definition json_loads_sample :: "string \<Rightarrow> json_line" where
  "json_loads_sample line =
     (if line = ''{}'' then Object no_keys
      else if line = line_null then Object (no_keys\<lparr>j_view_count := Some JNull\<rparr>)
      else if line = line_three then Object (no_keys\<lparr>j_view_count := Some (JInt 3)\<rparr>)
      else if line = ''5'' then NotObject
      else Malformed)"

text \<open>Noon of 1 March 2024, at every reading of the clock.\<close>

definition noon :: datetime where
  "noon = \<lparr>year = 2024, month = 3, day = 1, hour = 12, minute = 0, second = 0, microsecond = 0\<rparr>"

text \<open>A directory \<open>clips\<close> holding the one video \<open>x.mp4\<close>; \<open>ffmpeg\<close> is installed, and
  every transcoding run exits with status 1.\<close>

definition env_ffmpeg_fails :: env where
  "env_ffmpeg_fails =
     \<lparr>exec = (\<lambda>w argv. if argv = [''ffmpeg'', ''-version''] then (Exited 0 [] [], files w)
                        else (Exited 1 [] [], files w)),
      abspath = (\<lambda>p. ''/home/user/'' @ p),
      glob = (\<lambda>d pat. if d = ''clips'' \<and> pat = ''*.mp4'' then [''clips/x.mp4''] else []),
      str_exn = (\<lambda>x. ''error''),
      json_loads = json_loads_sample,
      json_dump = (\<lambda>m. m_title m),
      clock = (\<lambda>n. noon)\<rparr>"

definition trim_op :: operation where
  "trim_op = no_operation\<lparr>op_type := Some ''trim''\<rparr>"

definition watermark_op :: operation where
  "watermark_op = no_operation\<lparr>op_type := Some ''watermark'', op_text := Some ''hi''\<rparr>"

text \<open>\<open>ffmpeg\<close> is installed and every run of it exits with status 0, leaving the files
  as they are.\<close>

definition env_ok :: env where
  "env_ok =
     \<lparr>exec = (\<lambda>w argv. (Exited 0 [] [], files w)),
      abspath = (\<lambda>p. ''/home/user/'' @ p),
      glob = (\<lambda>d pat. []),
      str_exn = (\<lambda>x. ''error''),
      json_loads = json_loads_sample,
      json_dump = (\<lambda>m. m_title m),
      clock = (\<lambda>n. noon)\<rparr>"

text \<open>A world in which the intro video \<open>intro.mp4\<close> exists.\<close>

definition world_intro :: world where
  "world_intro = world0\<lparr>files := [''intro.mp4'' \<mapsto> ''video'']\<rparr>"

text \<open>The listing tool and the download tool are installed; the listing prints the given
  text; a download exits with status 0 and leaves the file at the path after \<open>-o\<close>.\<close>

definition env_stdout :: "string \<Rightarrow> env" where
  "env_stdout text =
     \<lparr>exec = (\<lambda>w argv.
         if take 2 argv = [''yt-dlp'', ''--flat-playlist''] then (Exited 0 text [], files w)
         else if take 2 argv = [''yt-dlp'', ''-o''] then (Exited 0 [] [], (files w)(argv ! 2 \<mapsto> ''video''))
         else (Exited 0 [] [], files w)),
      abspath = (\<lambda>p. ''/home/user/'' @ p),
      glob = (\<lambda>d pat. []),
      str_exn = (\<lambda>x. ''error''),
      json_loads = json_loads_sample,
      json_dump = (\<lambda>m. m_title m),
      clock = (\<lambda>n. noon)\<rparr>"

definition clip_a :: clip where
  "clip_a =
     \<lparr>clip_id = ''1'', title = ''A'', url = ''u1'', thumbnail_url = [], view_count = JInt 50,
      duration = PyInt 0, created_at = [], broadcaster_name = ''foo''\<rparr>"

definition clip_b :: clip where
  "clip_b =
     \<lparr>clip_id = ''2'', title = ''B'', url = ''u2'', thumbnail_url = [], view_count = JInt 90,
      duration = PyInt 0, created_at = [], broadcaster_name = ''foo''\<rparr>"

text \<open>A world in which the file of \<open>clip_a\<close> is already in \<open>downloads\<close>.\<close>

definition world_downloaded :: world where
  "world_downloaded = world0\<lparr>files := [''downloads/foo - A.mp4'' \<mapsto> ''video'']\<rparr>"

definition args0 :: args where
  "args0 =
     \<lparr>args_streamer = ''foo'', args_hours = 24, args_limit = 5, args_output_dir = ''downloads'',
      args_min_views = 0, args_metadata = True, args_format = ''mp4''\<rparr>"

definition form0 :: form where
  "form0 =
     \<lparr>streamer_var = ''foo'', period_var = ''24h'', limit_var = 5, min_views_var = 0,
      format_var = ''mp4'', output_dir_var = ''downloads'', create_metadata_var = True,
      generate_instructions_var = True, ffmpeg_path_attr = None\<rparr>"

section \<open>Filename sanitization\<close>

lemma sanitized_title_map:
  "sanitized_title t = map (\<lambda>c. if c \<in> set invalid_chars then CHR ''_'' else c) t"
  by (induction t) simp_all

lemma underscore_valid: "CHR ''_'' \<notin> set invalid_chars"
  by (simp add: invalid_chars_def)

lemma invalid_chars_set:
  "set invalid_chars =
     {CHR 0x5C, CHR ''/'', CHR ''*'', CHR ''?'', CHR '':'', CHR 0x22, CHR ''<'', CHR ''>'', CHR ''|''}"
  by (simp add: invalid_chars_def)

text \<open>
  C6. Sanitising a title replaces every occurrence of each of the nine characters
  backslash, slash, star, question mark, colon, double quote, less, greater and bar by an
  underscore and copies every other character unchanged, position by position. The
  character class of the code is exactly these nine characters, which are distinct; none of
  them is left in a sanitised title; sanitising a sanitised title changes nothing; and the
  title made of the nine characters followed by \<open>ok\<close> becomes nine underscores followed
  by \<open>ok\<close>.
\<close>

theorem sanitized_title_spec:
  "sanitized_title t =
     map (\<lambda>c. if c \<in> {CHR 0x5C, CHR ''/'', CHR ''*'', CHR ''?'', CHR '':'', CHR 0x22,
                         CHR ''<'', CHR ''>'', CHR ''|''}
               then CHR ''_'' else c) t
   \<and> set invalid_chars =
       {CHR 0x5C, CHR ''/'', CHR ''*'', CHR ''?'', CHR '':'', CHR 0x22, CHR ''<'', CHR ''>'', CHR ''|''}
   \<and> sanitized_title t = map (\<lambda>c. if c \<in> set invalid_chars then CHR ''_'' else c) t
   \<and> length invalid_chars = 9 \<and> distinct invalid_chars
   \<and> set invalid_chars \<inter> set (sanitized_title t) = {}
   \<and> sanitized_title (sanitized_title t) = sanitized_title t
   \<and> sanitized_title
         ([CHR 0x5C, CHR ''/'', CHR ''*'', CHR ''?'', CHR '':'', CHR 0x22, CHR ''<'', CHR ''>'', CHR ''|'']
          @ ''ok'')
       = ''_________ok''"
proof -
  have m: "sanitized_title t = map (\<lambda>c. if c \<in> set invalid_chars then CHR ''_'' else c) t"
    by (rule sanitized_title_map)
  have s: "set invalid_chars =
             {CHR 0x5C, CHR ''/'', CHR ''*'', CHR ''?'', CHR '':'', CHR 0x22, CHR ''<'', CHR ''>'', CHR ''|''}"
    by (rule invalid_chars_set)
  have x: "sanitized_title t =
             map (\<lambda>c. if c \<in> {CHR 0x5C, CHR ''/'', CHR ''*'', CHR ''?'', CHR '':'', CHR 0x22,
                                 CHR ''<'', CHR ''>'', CHR ''|''}
                       then CHR ''_'' else c) t"
    using m unfolding s .
  have n: "length invalid_chars = 9 \<and> distinct invalid_chars"
    by (simp add: invalid_chars_def)
  have d: "set invalid_chars \<inter> set (sanitized_title t) = {}"
    using underscore_valid by (induction t) auto
  have i: "sanitized_title (sanitized_title t) = sanitized_title t"
    using underscore_valid by (induction t) auto
  have ex: "sanitized_title
              ([CHR 0x5C, CHR ''/'', CHR ''*'', CHR ''?'', CHR '':'', CHR 0x22, CHR ''<'', CHR ''>'', CHR ''|'']
               @ ''ok'')
            = ''_________ok''"
    by (simp add: invalid_chars_def)
  from x s m n d i ex show ?thesis by blast
qed


section \<open>Post-processing operations\<close>

lemma check_ffmpeg_procs:
  "procs (snd (check_ffmpeg e w)) =
     procs w @ [([''ffmpeg'', ''-version''], files w, fst (exec e w [''ffmpeg'', ''-version'']))]"
  by (simp add: check_ffmpeg_def run_checked_def subprocess_run_def Let_def print_def
      split: prod.splits sum.splits proc_result.splits)

lemma check_ffmpeg_written: "written (snd (check_ffmpeg e w)) = written w"
  by (simp add: check_ffmpeg_def run_checked_def subprocess_run_def Let_def print_def
      split: prod.splits sum.splits proc_result.splits)

lemma check_ffmpeg_printed: "fst (check_ffmpeg e w) \<Longrightarrow> printed (snd (check_ffmpeg e w)) = printed w"
  by (auto simp add: check_ffmpeg_def run_checked_def subprocess_run_def Let_def print_def
      split: prod.splits sum.splits proc_result.splits if_splits)

lemma run_checked_argv:
  "argv_of command = Some argv \<Longrightarrow>
   run_checked e w command =
     ((case fst (exec e w argv) of
         NotFound \<Rightarrow> Inl FileNotFoundError
       | Exited rc so se \<Rightarrow> if rc \<noteq> 0 then Inl (CalledProcessError argv rc) else Inr ()),
      w\<lparr>files := snd (exec e w argv), procs := procs w @ [(argv, files w, fst (exec e w argv))]\<rparr>)"
  by (simp add: run_checked_def subprocess_run_def Let_def split: proc_result.splits)

text \<open>
  C7. Take an input path and an intro path with which \<open>add_intro\<close> reaches the
  transcoder: the \<open>ffmpeg\<close> probe succeeds, the intro file exists, and the concatenation
  run of \<open>ffmpeg\<close> ends with some exit status \<open>rc\<close>. Then the program has written the list
  file \<open>concat_list.txt\<close> with two lines, the absolute intro path first and the absolute
  input path second, and the transcoder was started on it while the file held exactly
  that text. After the call the list file is gone, whether the run succeeded
  (\<open>rc = 0\<close>) or failed (\<open>rc \<noteq> 0\<close>, where the call returns \<open>None\<close>). On success the
  call returns the output path; should the transcoder itself have deleted the list file,
  the unguarded \<open>os.remove\<close> raises instead, and the file is gone all the same.
\<close>

theorem add_intro_temp_list_removed:
  assumes probe: "check_ffmpeg e w = (True, w1)"
    and intro: "exists w1 intro_path"
    and out: "default_output output_path (Some i) ''_with_intro'' = Inr out"
    and w2: "w2 = write_file w1 temp_list (concat_line (abspath e intro_path) @ concat_line (abspath e i))"
    and argv: "argv = [''ffmpeg'', ''-f'', ''concat'', ''-safe'', ''0'', ''-i'', temp_list, ''-c'', ''copy'', out, ''-y'']"
    and ran: "exec e w2 argv = (Exited rc so se, fs')"
  shows "files (snd (add_intro e w (Some i) intro_path output_path)) temp_list = None
       \<and> procs (snd (add_intro e w (Some i) intro_path output_path)) = procs w1 @ [(argv, files w2, Exited rc so se)]
       \<and> files w2 temp_list = Some (concat_line (abspath e intro_path) @ concat_line (abspath e i))
       \<and> written (snd (add_intro e w (Some i) intro_path output_path))
           = written w @ [(temp_list, concat_line (abspath e intro_path) @ concat_line (abspath e i))]
       \<and> fst (add_intro e w (Some i) intro_path output_path)
           = (if rc \<noteq> 0 then Inr None
              else if fs' temp_list = None then Inl FileNotFoundError
              else Inr (Some out))"
proof -
  have a: "argv_of (intro_command out) = Some argv"
    by (simp add: intro_command_def argv)
  have ww: "written w1 = written w"
    using check_ffmpeg_written [of e w] probe by simp
  have r: "run_checked e w2 (intro_command out) =
     ((if rc \<noteq> 0 then Inl (CalledProcessError argv rc) else Inr ()),
      w2\<lparr>files := fs', procs := procs w2 @ [(argv, files w2, Exited rc so se)]\<rparr>)"
    using run_checked_argv [OF a, of e w2] ran by simp
  show ?thesis
  proof (cases "rc = 0")
    case True
    then show ?thesis
      using probe intro out r ww
      by (simp add: add_intro_def Let_def w2 [symmetric] remove_def exists_def print_def)
         (simp add: w2 write_file_def)
  next
    case False
    then show ?thesis
      using probe intro out r ww
      by (simp add: add_intro_def Let_def w2 [symmetric] remove_def exists_def print_def)
         (simp add: w2 write_file_def)
  qed
qed

theorem add_intro_temp_list_removed_witness:
  "files (snd (add_intro env_ok world_intro (Some ''a.mp4'') ''intro.mp4'' None)) temp_list = None
   \<and> map fst (procs (snd (add_intro env_ok world_intro (Some ''a.mp4'') ''intro.mp4'' None)))
       = [[''ffmpeg'', ''-version''],
          [''ffmpeg'', ''-f'', ''concat'', ''-safe'', ''0'', ''-i'', ''concat_list.txt'', ''-c'', ''copy'',
           ''a_with_intro.mp4'', ''-y'']]
   \<and> written (snd (add_intro env_ok world_intro (Some ''a.mp4'') ''intro.mp4'' None))
       = [(''concat_list.txt'',
           ''file '' @ sq @ ''/home/user/intro.mp4'' @ sq @ [CHR 0x0A]
           @ ''file '' @ sq @ ''/home/user/a.mp4'' @ sq @ [CHR 0x0A])]
   \<and> fst (add_intro env_ok world_intro (Some ''a.mp4'') ''intro.mp4'' None) = Inr (Some ''a_with_intro.mp4'')"
proof -
  have probe: "check_ffmpeg env_ok world_intro = (True, snd (check_ffmpeg env_ok world_intro))"
    by (simp add: check_ffmpeg_def run_checked_def subprocess_run_def Let_def env_ok_def)
  have intro: "exists (snd (check_ffmpeg env_ok world_intro)) ''intro.mp4''"
    by (simp add: check_ffmpeg_def run_checked_def subprocess_run_def Let_def env_ok_def
        exists_def world_intro_def world0_def)
  have out: "default_output None (Some ''a.mp4'') ''_with_intro'' = Inr ''a_with_intro.mp4''"
    by (simp add: default_output_def splitext_def basename_def Let_def)
  have ran: "exec env_ok
       (write_file (snd (check_ffmpeg env_ok world_intro)) temp_list
          (concat_line (abspath env_ok ''intro.mp4'') @ concat_line (abspath env_ok ''a.mp4'')))
       [''ffmpeg'', ''-f'', ''concat'', ''-safe'', ''0'', ''-i'', temp_list, ''-c'', ''copy'',
        ''a_with_intro.mp4'', ''-y'']
     = (Exited 0 [] [],
        files (write_file (snd (check_ffmpeg env_ok world_intro)) temp_list
          (concat_line (abspath env_ok ''intro.mp4'') @ concat_line (abspath env_ok ''a.mp4''))))"
    by (simp add: env_ok_def)
  have pp: "procs (snd (check_ffmpeg env_ok world_intro))
      = [([''ffmpeg'', ''-version''], files world_intro, Exited 0 [] [])]"
    by (simp add: check_ffmpeg_def run_checked_def subprocess_run_def Let_def env_ok_def
        world_intro_def world0_def)
  have ft: "files (write_file (snd (check_ffmpeg env_ok world_intro)) temp_list
          (concat_line (abspath env_ok ''intro.mp4'') @ concat_line (abspath env_ok ''a.mp4''))) temp_list \<noteq> None"
    by (simp add: write_file_def)
  show ?thesis
    using add_intro_temp_list_removed [OF probe intro out refl refl ran] pp ft
    by (simp add: temp_list_def concat_line_def env_ok_def world_intro_def world0_def)
qed


lemma try_ffmpeg_argv:
  "argv_of command = Some argv \<Longrightarrow>
   fst (try_ffmpeg e w command out saved failed) =
     (case fst (exec e w argv) of
        NotFound \<Rightarrow> Inl FileNotFoundError
      | Exited rc so se \<Rightarrow> if rc \<noteq> 0 then Inr None else Inr (Some out))
   \<and> procs (snd (try_ffmpeg e w command out saved failed)) =
       procs w @ [(argv, files w, fst (exec e w argv))]"
  by (simp add: try_ffmpeg_def run_checked_argv print_def split: proc_result.splits)

lemma lower_tiktok: "lower ''TIKTOK'' = ''tiktok''"
  by code_simp

lemma platform_names:
  "map fst platform_settings = [''tiktok'', ''instagram'', ''instagram_story'', ''youtube'']"
  by (simp add: platform_settings_def)

lemma supported_platforms:
  "str_join '', '' (map fst platform_settings) = ''tiktok, instagram, instagram_story, youtube''"
  by (simp add: platform_settings_def)

text \<open>
  C8, as stated, fails: the platform \<open>TIKTOK\<close> is not one of the four strings of the
  enumeration, yet \<open>resize_for_platform\<close> accepts it, because it looks the platform up in
  lower case, and runs the transcoder with the target \<open>1080:1920\<close>.
\<close>

theorem resize_uppercase_platform_accepted:
  "''TIKTOK'' \<notin> set [''tiktok'', ''instagram'', ''instagram_story'', ''youtube'']
   \<and> fst (resize_for_platform env_ok world0 (Some ''a.mp4'') ''TIKTOK'' None) = Inr (Some ''a_for_TIKTOK.mp4'')
   \<and> map fst (procs (snd (resize_for_platform env_ok world0 (Some ''a.mp4'') ''TIKTOK'' None)))
       = [[''ffmpeg'', ''-version''],
          [''ffmpeg'', ''-i'', ''a.mp4'', ''-vf'',
           ''scale=1080:1920:force_original_aspect_ratio=decrease,pad=1080:1920:(ow-iw)/2:(oh-ih)/2'',
           ''-c:a'', ''copy'', ''a_for_TIKTOK.mp4'', ''-y'']]"
  by (simp add: resize_for_platform_def check_ffmpeg_def run_checked_def subprocess_run_def
      Let_def env_ok_def world0_def lower_tiktok platform_settings_def default_output_def
      splitext_def basename_def try_ffmpeg_def resize_command_def print_def)

lemma unknown_platform:
  "lower platform \<notin> set [''tiktok'', ''instagram'', ''instagram_story'', ''youtube'']
   \<Longrightarrow> map_of platform_settings (lower platform) = None"
  by (simp add: platform_settings_def)

lemma check_ffmpeg_pair: "check_ffmpeg e w = (fst (check_ffmpeg e w), snd (check_ffmpeg e w))"
  by simp

text \<open>
  C8, amended. For every platform string whose lower-case form is not one of \<open>tiktok\<close>,
  \<open>instagram\<close>, \<open>instagram_story\<close>, \<open>youtube\<close>, \<open>resize_for_platform\<close> returns \<open>None\<close>
  and starts no program but the availability probe \<open>ffmpeg -version\<close>; when that probe
  succeeds it prints the platform as unknown and then the enumeration. For a platform
  whose lower-case form is \<open>tiktok\<close>, when the probe succeeds, the next program started
  is the transcoder with the filter
  \<open>scale=1080:1920:force_original_aspect_ratio=decrease,pad=1080:1920:(ow-iw)/2:(oh-ih)/2\<close>.
\<close>

theorem resize_platform_checked:
  "(lower platform \<notin> set [''tiktok'', ''instagram'', ''instagram_story'', ''youtube''] \<longrightarrow>
      fst (resize_for_platform e w input_path platform output_path) = Inr None
    \<and> procs (snd (resize_for_platform e w input_path platform output_path))
        = procs w @ [([''ffmpeg'', ''-version''], files w, fst (exec e w [''ffmpeg'', ''-version'']))]
    \<and> (fst (check_ffmpeg e w) \<longrightarrow>
         printed (snd (resize_for_platform e w input_path platform output_path))
           = printed w @ [''Unknown platform: '' @ platform,
                          ''Supported platforms: tiktok, instagram, instagram_story, youtube'']))
   \<and> (lower platform = ''tiktok'' \<longrightarrow> fst (check_ffmpeg e w) \<longrightarrow>
        default_output output_path (Some i) (''_for_'' @ platform) = Inr out \<longrightarrow>
        procs (snd (resize_for_platform e w (Some i) platform output_path))
          = procs w @
            [([''ffmpeg'', ''-version''], files w, fst (exec e w [''ffmpeg'', ''-version''])),
             ([''ffmpeg'', ''-i'', i, ''-vf'',
               ''scale=1080:1920:force_original_aspect_ratio=decrease,pad=1080:1920:(ow-iw)/2:(oh-ih)/2'',
               ''-c:a'', ''copy'', out, ''-y''],
              files (snd (check_ffmpeg e w)),
              fst (exec e (snd (check_ffmpeg e w))
                [''ffmpeg'', ''-i'', i, ''-vf'',
                 ''scale=1080:1920:force_original_aspect_ratio=decrease,pad=1080:1920:(ow-iw)/2:(oh-ih)/2'',
                 ''-c:a'', ''copy'', out, ''-y'']))])"
proof (cases "fst (check_ffmpeg e w)")
  case False
  define w1 where "w1 = snd (check_ffmpeg e w)"
  have "check_ffmpeg e w = (False, w1)"
    using False check_ffmpeg_pair [of e w] by (simp add: w1_def)
  then have "\<And>ip. resize_for_platform e w ip platform output_path = (Inr None, w1)"
    by (simp add: resize_for_platform_def)
  then show ?thesis
    using False check_ffmpeg_procs [of e w] by (simp add: w1_def)
next
  case True
  define w1 where "w1 = snd (check_ffmpeg e w)"
  have probe: "check_ffmpeg e w = (True, w1)"
    using True check_ffmpeg_pair [of e w] by (simp add: w1_def)
  have p1: "procs w1 = procs w @ [([''ffmpeg'', ''-version''], files w, fst (exec e w [''ffmpeg'', ''-version'']))]"
    using check_ffmpeg_procs [of e w] by (simp add: w1_def)
  have pr: "printed w1 = printed w"
    using check_ffmpeg_printed [of e w] True by (simp add: w1_def)
  have unknown: "lower platform \<notin> set [''tiktok'', ''instagram'', ''instagram_story'', ''youtube''] \<Longrightarrow>
      resize_for_platform e w input_path platform output_path =
        (Inr None, print (print w1 (''Unknown platform: '' @ platform))
                     (''Supported platforms: '' @ str_join '', '' (map fst platform_settings)))"
    using probe unknown_platform [of platform] by (simp add: resize_for_platform_def)
  have tiktok: "lower platform = ''tiktok'' \<Longrightarrow>
      default_output output_path (Some i) (''_for_'' @ platform) = Inr out \<Longrightarrow>
      resize_for_platform e w (Some i) platform output_path =
        try_ffmpeg e w1 (resize_command (Some i) ''1080:1920'' out) out
          (''Resized video for '' @ ''TikTok (vertical 9:16)'' @ '' saved to: '') ''Error resizing video: ''"
    using probe by (simp add: resize_for_platform_def platform_settings_def)
  have a: "argv_of (resize_command (Some i) ''1080:1920'' out) =
     Some [''ffmpeg'', ''-i'', i, ''-vf'',
           ''scale=1080:1920:force_original_aspect_ratio=decrease,pad=1080:1920:(ow-iw)/2:(oh-ih)/2'',
           ''-c:a'', ''copy'', out, ''-y'']"
    by (simp add: resize_command_def)
  show ?thesis
    using True unknown tiktok try_ffmpeg_argv [OF a] p1 pr supported_platforms
    by (simp add: print_def w1_def [symmetric])
qed

theorem resize_platform_checked_witness:
  "fst (resize_for_platform env_ok world0 (Some ''a.mp4'') ''unknown'' None) = Inr None
   \<and> map fst (procs (snd (resize_for_platform env_ok world0 (Some ''a.mp4'') ''unknown'' None)))
       = [[''ffmpeg'', ''-version'']]
   \<and> printed (snd (resize_for_platform env_ok world0 (Some ''a.mp4'') ''unknown'' None))
       = [''Unknown platform: unknown'',
          ''Supported platforms: tiktok, instagram, instagram_story, youtube'']
   \<and> map fst (procs (snd (resize_for_platform env_ok world0 (Some ''a.mp4'') ''tiktok'' None)))
       = [[''ffmpeg'', ''-version''],
          [''ffmpeg'', ''-i'', ''a.mp4'', ''-vf'',
           ''scale=1080:1920:force_original_aspect_ratio=decrease,pad=1080:1920:(ow-iw)/2:(oh-ih)/2'',
           ''-c:a'', ''copy'', ''a_for_tiktok.mp4'', ''-y'']]"
proof -
  have u: "lower ''unknown'' \<notin> set [''tiktok'', ''instagram'', ''instagram_story'', ''youtube'']"
    by code_simp
  have t: "lower ''tiktok'' = ''tiktok''"
    by code_simp
  have c: "fst (check_ffmpeg env_ok world0)"
    by (simp add: check_ffmpeg_def run_checked_def subprocess_run_def Let_def env_ok_def)
  have d: "default_output None (Some ''a.mp4'') (''_for_'' @ ''tiktok'') = Inr ''a_for_tiktok.mp4''"
    by (simp add: default_output_def splitext_def basename_def Let_def)
  show ?thesis
    using resize_platform_checked [of "''unknown''" env_ok world0 "Some ''a.mp4''" None "''a.mp4''" "''x''"]
      resize_platform_checked [of "''tiktok''" env_ok world0 "Some ''a.mp4''" None "''a.mp4''" "''a_for_tiktok.mp4''"]
      u t c d
    by (simp add: world0_def)
qed

lemma unknown_position:
  "lower position \<notin> set [''topleft'', ''topright'', ''bottomleft'', ''bottomright'', ''center'']
   \<Longrightarrow> position_value position = ''w-tw-10:h-th-10''"
  by (simp add: position_value_def positions_def)

lemma position_bottomright: "position_value ''bottomright'' = ''w-tw-10:h-th-10''"
  unfolding position_value_def positions_def by code_simp

text \<open>
  C10. For every position whose lower-case form is not one of \<open>topleft\<close>, \<open>topright\<close>,
  \<open>bottomleft\<close>, \<open>bottomright\<close>, \<open>center\<close>, \<open>add_watermark\<close> does exactly what it does
  for \<open>bottomright\<close>: with \<open>ffmpeg\<close> available it starts the transcoder with the
  coordinates \<open>w-tw-10:h-th-10\<close> and returns the output path when the transcoder
  succeeds; the position is never a reason to reject the input (unlike an unknown
  platform in \<open>resize_for_platform\<close>, which returns \<open>None\<close> before any transcoding).
\<close>

theorem add_watermark_unknown_position:
  assumes unknown: "lower position \<notin> set [''topleft'', ''topright'', ''bottomleft'', ''bottomright'', ''center'']"
    and probe: "fst (check_ffmpeg e w)"
    and out: "default_output output_path (Some i) ''_watermarked'' = Inr out"
    and argv: "argv = [''ffmpeg'', ''-i'', i, ''-vf'',
                 ''drawtext=text='' @ sq @ watermark_text @ sq @ '':fontcolor=white:fontsize=''
                   @ str_num fontsize @ '':box=1:boxcolor=black@0.5:boxborderw=5:x=w-tw-10:h-th-10'',
                 ''-codec:a'', ''copy'', out, ''-y'']"
  shows "add_watermark e w (Some i) watermark_text output_path position fontsize
           = add_watermark e w (Some i) watermark_text output_path ''bottomright'' fontsize
       \<and> procs (snd (add_watermark e w (Some i) watermark_text output_path position fontsize))
           = procs w @
             [([''ffmpeg'', ''-version''], files w, fst (exec e w [''ffmpeg'', ''-version''])),
              (argv, files (snd (check_ffmpeg e w)), fst (exec e (snd (check_ffmpeg e w)) argv))]
       \<and> fst (add_watermark e w (Some i) watermark_text output_path position fontsize)
           = (case fst (exec e (snd (check_ffmpeg e w)) argv) of
                NotFound \<Rightarrow> Inl FileNotFoundError
              | Exited rc so se \<Rightarrow> if rc \<noteq> 0 then Inr None else Inr (Some out))"
proof -
  define w1 where "w1 = snd (check_ffmpeg e w)"
  have c: "check_ffmpeg e w = (True, w1)"
    using probe check_ffmpeg_pair [of e w] by (simp add: w1_def)
  have p1: "procs w1 = procs w @ [([''ffmpeg'', ''-version''], files w, fst (exec e w [''ffmpeg'', ''-version'']))]"
    using check_ffmpeg_procs [of e w] by (simp add: w1_def)
  have a: "argv_of (watermark_command (Some i) watermark_text fontsize ''w-tw-10:h-th-10'' out) = Some argv"
    by (simp add: watermark_command_def argv)
  have eq: "add_watermark e w (Some i) watermark_text output_path position fontsize =
      try_ffmpeg e w1 (watermark_command (Some i) watermark_text fontsize ''w-tw-10:h-th-10'' out) out
        ''Watermarked video saved to: '' ''Error adding watermark: ''"
    using c out unknown_position [OF unknown] by (simp add: add_watermark_def)
  have eq': "add_watermark e w (Some i) watermark_text output_path ''bottomright'' fontsize =
      try_ffmpeg e w1 (watermark_command (Some i) watermark_text fontsize ''w-tw-10:h-th-10'' out) out
        ''Watermarked video saved to: '' ''Error adding watermark: ''"
    using c out position_bottomright by (simp add: add_watermark_def)
  show ?thesis
    using eq eq' try_ffmpeg_argv [OF a, of e w1 out] p1
    by (simp add: w1_def [symmetric])
qed

theorem add_watermark_unknown_position_witness:
  "add_watermark env_ok world0 (Some ''a.mp4'') ''hi'' None ''middle'' (PyInt 24)
     = add_watermark env_ok world0 (Some ''a.mp4'') ''hi'' None ''bottomright'' (PyInt 24)
   \<and> map fst (procs (snd (add_watermark env_ok world0 (Some ''a.mp4'') ''hi'' None ''middle'' (PyInt 24))))
       = [[''ffmpeg'', ''-version''],
          [''ffmpeg'', ''-i'', ''a.mp4'', ''-vf'',
           ''drawtext=text='' @ sq @ ''hi'' @ sq
             @ '':fontcolor=white:fontsize=24:box=1:boxcolor=black@0.5:boxborderw=5:x=w-tw-10:h-th-10'',
           ''-codec:a'', ''copy'', ''a_watermarked.mp4'', ''-y'']]
   \<and> fst (add_watermark env_ok world0 (Some ''a.mp4'') ''hi'' None ''middle'' (PyInt 24))
       = Inr (Some ''a_watermarked.mp4'')"
proof -
  have u: "lower ''middle'' \<notin> set [''topleft'', ''topright'', ''bottomleft'', ''bottomright'', ''center'']"
    by code_simp
  have c: "fst (check_ffmpeg env_ok world0)"
    by (simp add: check_ffmpeg_def run_checked_def subprocess_run_def Let_def env_ok_def)
  have d: "default_output None (Some ''a.mp4'') ''_watermarked'' = Inr ''a_watermarked.mp4''"
    by (simp add: default_output_def splitext_def basename_def Let_def)
  have n: "str_num (PyInt 24) = ''24''"
    by code_simp
  have ex: "\<And>w a. fst (exec env_ok w a) = Exited 0 [] []"
    by (simp add: env_ok_def)
  have p0: "procs world0 = []"
    by (simp add: world0_def)
  note t = add_watermark_unknown_position [OF u c d refl, of "''hi''" "PyInt 24"]
  show ?thesis
    using conjunct1 [OF t] conjunct1 [OF conjunct2 [OF t]] conjunct2 [OF conjunct2 [OF t]] n
    by (simp add: ex p0)
qed

text \<open>
  C1 says that a failing operation ends the chain of its file, which is then left out
  of the returned list. The inner loop of \<open>batch_process\<close> has no exit: after \<open>trim_video\<close>
  returns \<open>None\<close> (the transcoder exits with status 1), \<open>add_watermark\<close> is called with
  the input \<open>None\<close>, probes \<open>ffmpeg\<close> again, and \<open>subprocess.run\<close> raises \<open>TypeError\<close> on
  the \<open>None\<close> argument; the exception escapes \<open>batch_process\<close>, so no list is returned.
\<close>

theorem batch_process_continues_after_failure:
  "fst (batch_process env_ffmpeg_fails world0 ''clips'' [trim_op, watermark_op] None) = Inl TypeError
   \<and> map fst (procs (snd (batch_process env_ffmpeg_fails world0 ''clips'' [trim_op, watermark_op] None)))
       = [[''ffmpeg'', ''-version''],
          [''ffmpeg'', ''-i'', ''clips/x.mp4'', ''-ss'', ''0'', ''-c'', ''copy'',
           ''clips/processed/x_trimmed.mp4'', ''-y''],
          [''ffmpeg'', ''-version'']]
   \<and> fst (trim_video env_ffmpeg_fails world0 (Some ''clips/x.mp4'')
            (Some ''clips/processed/x_trimmed.mp4'') (PyInt 0) None) = Inr None"
  by code_simp


section \<open>Ranking\<close>

text \<open>Python gives \<^verbatim>\<open>'a' < 'ab'\<close>, \<^verbatim>\<open>'B' < 'a'\<close> and \<^verbatim>\<open>2 < 10\<close>, not
  \<^verbatim>\<open>'b' < 'ab'\<close> nor \<^verbatim>\<open>'10' < '10'\<close>, and raises on \<^verbatim>\<open>None < 3\<close>,
  \<^verbatim>\<open>None < None\<close> and \<^verbatim>\<open>3 < '3'\<close>.\<close>

lemma py_less_examples:
  "py_less (JStr ''a'') (JStr ''ab'') = Some True"
  "py_less (JStr ''B'') (JStr ''a'') = Some True"
  "py_less (JInt 2) (JInt 10) = Some True"
  "py_less (JStr ''b'') (JStr ''ab'') = Some False"
  "py_less (JStr ''10'') (JStr ''10'') = Some False"
  "py_less JNull (JInt 3) = None"
  "py_less JNull JNull = None"
  "py_less (JInt 3) (JStr ''3'') = None"
  by code_simp+

lemma py_less_irrefl: "py_less v v \<noteq> Some True"
  by (cases v) simp_all

lemma py_less_asym: "py_less a b = Some True \<Longrightarrow> py_less b a = Some False"
  by (cases a; cases b) auto

lemma py_less_trans:
  "py_less a b = Some False \<Longrightarrow> py_less b c = Some False \<Longrightarrow> py_less a c = Some False"
  by (cases a; cases b; cases c) auto

lemma py_less_ints:
  "py_less a b = Some False \<Longrightarrow> a = JInt m \<Longrightarrow> \<exists>n. b = JInt n \<and> n \<le> m"
  by (cases b) auto



lemma mset_insert_clip: "insert_clip c ds = Inr r \<Longrightarrow> mset r = add_mset c (mset ds)"
  by (induction ds arbitrary: r) (auto split: option.splits if_splits sum.splits)

lemma set_insert_clip: "insert_clip c ds = Inr r \<Longrightarrow> set r = insert c (set ds)"
  using mset_insert_clip [of c ds r] by (metis set_mset_add_mset_insert set_mset_mset)

lemma sorted_insert_clip:
  "sorted_wrt (\<lambda>a b. py_less (view_count a) (view_count b) = Some False) ds
   \<Longrightarrow> insert_clip c ds = Inr r
   \<Longrightarrow> sorted_wrt (\<lambda>a b. py_less (view_count a) (view_count b) = Some False) r"
proof (induction ds arbitrary: r)
  case Nil
  then show ?case by auto
next
  case (Cons d ds)
  show ?case
  proof (cases "py_less (view_count c) (view_count d)")
    case None
    with Cons.prems show ?thesis by simp
  next
    case (Some smaller)
    show ?thesis
    proof (cases smaller)
      case True
      with Some Cons.prems obtain r' where r': "insert_clip c ds = Inr r'" and r: "r = d # r'"
        by (auto split: sum.splits)
      have s: "sorted_wrt (\<lambda>a b. py_less (view_count a) (view_count b) = Some False) r'"
        using Cons.IH [OF _ r'] Cons.prems(1) by simp
      have "py_less (view_count d) (view_count c) = Some False"
        using Some True by (simp add: py_less_asym)
      then have "\<forall>x\<in>set r'. py_less (view_count d) (view_count x) = Some False"
        using Cons.prems(1) set_insert_clip [OF r'] by auto
      with s r show ?thesis by simp
    next
      case False
      with Some Cons.prems have r: "r = c # d # ds" by simp
      have cd: "py_less (view_count c) (view_count d) = Some False"
        using Some False by simp
      have "\<forall>x\<in>set ds. py_less (view_count c) (view_count x) = Some False"
        using Cons.prems(1) cd by (auto intro: py_less_trans)
      with cd r Cons.prems(1) show ?thesis by simp
    qed
  qed
qed

lemma filter_insert_clip:
  "insert_clip c ds = Inr r
   \<Longrightarrow> filter (\<lambda>x. view_count x = k) r =
         (if view_count c = k then c # filter (\<lambda>x. view_count x = k) ds
          else filter (\<lambda>x. view_count x = k) ds)"
proof (induction ds arbitrary: r)
  case Nil
  then show ?case by auto
next
  case (Cons d ds)
  show ?case
  proof (cases "py_less (view_count c) (view_count d) = Some True")
    case True
    with Cons.prems obtain r' where r': "insert_clip c ds = Inr r'" and r: "r = d # r'"
      by (auto split: sum.splits)
    have "view_count c \<noteq> view_count d"
      using True py_less_irrefl [of "view_count d"] by auto
    with Cons.IH [OF r'] r show ?thesis by auto
  next
    case False
    with Cons.prems have "r = c # d # ds"
      by (auto split: option.splits if_splits)
    then show ?thesis by simp
  qed
qed

lemma mset_sort_by_views: "sort_by_views clips = Inr r \<Longrightarrow> mset r = mset clips"
  by (induction clips arbitrary: r) (auto split: sum.splits dest: mset_insert_clip)


lemma sorted_sort_by_views:
  "sort_by_views clips = Inr r
   \<Longrightarrow> sorted_wrt (\<lambda>a b. py_less (view_count a) (view_count b) = Some False) r"
proof (induction clips arbitrary: r)
  case Nil
  then show ?case by simp
next
  case (Cons c cs)
  then obtain r' where r': "sort_by_views cs = Inr r'" and r: "insert_clip c r' = Inr r"
    by (auto split: sum.splits)
  from sorted_insert_clip [OF Cons.IH [OF r'] r] show ?case .
qed

lemma stable_sort_by_views:
  "sort_by_views clips = Inr r
   \<Longrightarrow> filter (\<lambda>x. view_count x = k) r = filter (\<lambda>x. view_count x = k) clips"
proof (induction clips arbitrary: r)
  case Nil
  then show ?case by simp
next
  case (Cons c cs)
  then obtain r' where r': "sort_by_views cs = Inr r'" and r: "insert_clip c r' = Inr r"
    by (auto split: sum.splits)
  from filter_insert_clip [OF r, of k] Cons.IH [OF r'] show ?case by simp
qed

text \<open>The sort raises nothing on counts that are all integers, or all strings, and on
  a list of at most one clip; on every other list it raises \<open>TypeError\<close>.\<close>

lemma insert_clip_ints:
  "\<forall>d\<in>set ds. \<exists>n. view_count d = JInt n \<Longrightarrow> view_count c = JInt m
   \<Longrightarrow> \<exists>r. insert_clip c ds = Inr r"
proof (induction ds)
  case Nil
  then show ?case by simp
next
  case (Cons d ds)
  then obtain n where n: "view_count d = JInt n" by auto
  from Cons obtain r where "insert_clip c ds = Inr r" by auto
  with n Cons.prems(2) show ?case by simp
qed


lemma sort_by_views_ints:
  "\<forall>c\<in>set clips. \<exists>n. view_count c = JInt n \<Longrightarrow> \<exists>r. sort_by_views clips = Inr r"
proof (induction clips)
  case Nil
  then show ?case by simp
next
  case (Cons c cs)
  then obtain r where r: "sort_by_views cs = Inr r" by auto
  from Cons.prems obtain m where m: "view_count c = JInt m" by auto
  have "set r = set cs" using mset_sort_by_views [OF r] by (metis set_mset_mset)
  with Cons.prems have "\<forall>d\<in>set r. \<exists>n. view_count d = JInt n" by simp
  from insert_clip_ints [OF this m] r show ?case by simp
qed





lemma sorted_ints:
  "sorted_wrt (\<lambda>a b. py_less (view_count a) (view_count b) = Some False) r
   \<Longrightarrow> \<forall>c\<in>set r. \<exists>n. view_count c = JInt n
   \<Longrightarrow> sorted_wrt (\<lambda>a b. \<exists>m n. view_count a = JInt m \<and> view_count b = JInt n \<and> n \<le> m) r"
proof (induction r)
  case Nil
  then show ?case by simp
next
  case (Cons a r)
  from Cons.prems(2) obtain m where m: "view_count a = JInt m" by auto
  have "\<forall>x\<in>set r. \<exists>m n. view_count a = JInt m \<and> view_count x = JInt n \<and> n \<le> m"
  proof
    fix x assume "x \<in> set r"
    with Cons.prems(1) have "py_less (view_count a) (view_count x) = Some False" by simp
    from py_less_ints [OF this m] m
    show "\<exists>m n. view_count a = JInt m \<and> view_count x = JInt n \<and> n \<le> m" by blast
  qed
  with Cons show ?case by simp
qed

lemma gui_listed_sorted:
  "sorted_wrt (\<lambda>a b. py_less (view_count a) (view_count b) = Some False)
     (fst (gui_listed e w username r))"
  by (auto simp: gui_listed_def Let_def sorted_sort_by_views split: proc_result.splits sum.splits)

lemma gui_scrape_clips_sorted:
  "sorted_wrt (\<lambda>a b. py_less (view_count a) (view_count b) = Some False)
     (fst (gui_scrape_clips e w username period limit min_views))"
  by (simp add: gui_scrape_clips_def Let_def gui_listed_sorted split: prod.splits sum.splits)

text \<open>
  C3. For every list of clips whose view counts are integers, the sort by view count that
  the orchestrator (and the lister of the window) applies returns a list: a permutation
  of the input, in non-increasing order of \<open>view_count\<close>, in which for every count the
  clips of that count stand in the order they had in the input. Whatever the view counts
  are, a list the sort returns is a permutation of the input, no clip in it is smaller
  than a later one by Python's \<open><\<close>, and clips of equal count keep their order. The list
  the window's lister returns is always in that order, and the two clips A (50 views) and
  B (90 views) come out as B, A.
\<close>

theorem ranker_stable_descending:
  "((\<forall>c\<in>set clips. \<exists>n. view_count c = JInt n) \<longrightarrow>
      (\<exists>ranked. sort_by_views clips = Inr ranked
         \<and> mset ranked = mset clips
         \<and> sorted_wrt (\<lambda>a b. \<exists>m n. view_count a = JInt m \<and> view_count b = JInt n \<and> n \<le> m) ranked
         \<and> (\<forall>k. filter (\<lambda>x. view_count x = k) ranked = filter (\<lambda>x. view_count x = k) clips)))
   \<and> (\<forall>ranked. sort_by_views clips = Inr ranked \<longrightarrow>
         mset ranked = mset clips
         \<and> sorted_wrt (\<lambda>a b. py_less (view_count a) (view_count b) = Some False) ranked
         \<and> (\<forall>k. filter (\<lambda>x. view_count x = k) ranked = filter (\<lambda>x. view_count x = k) clips))
   \<and> sorted_wrt (\<lambda>a b. py_less (view_count a) (view_count b) = Some False)
        (fst (gui_scrape_clips e w username period limit min_views))
   \<and> sort_by_views [clip_a, clip_b] = Inr [clip_b, clip_a]"
proof -
  have general: "\<forall>ranked. sort_by_views clips = Inr ranked \<longrightarrow>
         mset ranked = mset clips
         \<and> sorted_wrt (\<lambda>a b. py_less (view_count a) (view_count b) = Some False) ranked
         \<and> (\<forall>k. filter (\<lambda>x. view_count x = k) ranked = filter (\<lambda>x. view_count x = k) clips)"
    using mset_sort_by_views sorted_sort_by_views stable_sort_by_views by blast
  have ints: "(\<forall>c\<in>set clips. \<exists>n. view_count c = JInt n) \<longrightarrow>
      (\<exists>ranked. sort_by_views clips = Inr ranked
         \<and> mset ranked = mset clips
         \<and> sorted_wrt (\<lambda>a b. \<exists>m n. view_count a = JInt m \<and> view_count b = JInt n \<and> n \<le> m) ranked
         \<and> (\<forall>k. filter (\<lambda>x. view_count x = k) ranked = filter (\<lambda>x. view_count x = k) clips))"
  proof
    assume a: "\<forall>c\<in>set clips. \<exists>n. view_count c = JInt n"
    from sort_by_views_ints [OF a] obtain r where r: "sort_by_views clips = Inr r" by blast
    have "set r = set clips" using mset_sort_by_views [OF r] by (metis set_mset_mset)
    with a have "\<forall>c\<in>set r. \<exists>n. view_count c = JInt n" by simp
    from sorted_ints [OF sorted_sort_by_views [OF r] this] r general
    show "\<exists>ranked. sort_by_views clips = Inr ranked
         \<and> mset ranked = mset clips
         \<and> sorted_wrt (\<lambda>a b. \<exists>m n. view_count a = JInt m \<and> view_count b = JInt n \<and> n \<le> m) ranked
         \<and> (\<forall>k. filter (\<lambda>x. view_count x = k) ranked = filter (\<lambda>x. view_count x = k) clips)"
      by blast
  qed
  have ex: "sort_by_views [clip_a, clip_b] = Inr [clip_b, clip_a]"
    by (simp add: clip_a_def clip_b_def)
  from ints general gui_scrape_clips_sorted [of e w username period limit min_views] ex
  show ?thesis by blast
qed

theorem ranker_stable_descending_witness:
  "view_count clip_a = JInt 50 \<and> view_count clip_b = JInt 90
   \<and> sort_by_views [clip_a, clip_b, clip_a] = Inr [clip_b, clip_a, clip_a]
   \<and> (\<exists>ranked. sort_by_views [clip_a, clip_b, clip_a] = Inr ranked
        \<and> mset ranked = mset [clip_a, clip_b, clip_a]
        \<and> sorted_wrt (\<lambda>a b. \<exists>m n. view_count a = JInt m \<and> view_count b = JInt n \<and> n \<le> m) ranked
        \<and> (\<forall>k. filter (\<lambda>x. view_count x = k) ranked
                 = filter (\<lambda>x. view_count x = k) [clip_a, clip_b, clip_a]))
   \<and> mset [clip_b, clip_a, clip_a] = mset [clip_a, clip_b, clip_a]
   \<and> sorted_wrt (\<lambda>a b. py_less (view_count a) (view_count b) = Some False) [clip_b, clip_a, clip_a]"
proof -
  have a: "view_count clip_a = JInt 50" and b: "view_count clip_b = JInt 90"
    by (simp_all add: clip_a_def clip_b_def)
  have h: "\<forall>c\<in>set [clip_a, clip_b, clip_a]. \<exists>n. view_count c = JInt n"
    using a b by simp
  have s: "sort_by_views [clip_a, clip_b, clip_a] = Inr [clip_b, clip_a, clip_a]"
    by (simp add: clip_a_def clip_b_def)
  note t = ranker_stable_descending [of "[clip_a, clip_b, clip_a]" env_ok world0 "''foo''" "''24h''" 5 0]
  from conjunct1 [OF t] h
  have c1: "\<exists>ranked. sort_by_views [clip_a, clip_b, clip_a] = Inr ranked
        \<and> mset ranked = mset [clip_a, clip_b, clip_a]
        \<and> sorted_wrt (\<lambda>a b. \<exists>m n. view_count a = JInt m \<and> view_count b = JInt n \<and> n \<le> m) ranked
        \<and> (\<forall>k. filter (\<lambda>x. view_count x = k) ranked
                 = filter (\<lambda>x. view_count x = k) [clip_a, clip_b, clip_a])"
    by blast
  from conjunct1 [OF conjunct2 [OF t]] s
  have c2: "mset [clip_b, clip_a, clip_a] = mset [clip_a, clip_b, clip_a]
        \<and> sorted_wrt (\<lambda>a b. py_less (view_count a) (view_count b) = Some False) [clip_b, clip_a, clip_a]"
    by blast
  from a b s c1 c2 show ?thesis by blast
qed

section \<open>Listing\<close>

lemma parse_lines_error: "parse_lines e u ls acc = Inl x \<Longrightarrow> x = AttributeError"
  by (induction ls arbitrary: acc) (auto split: if_splits json_line.splits)













lemma listed_procs: "procs (snd (listed e w u r)) = procs w"
  by (simp add: listed_def print_def split: proc_result.splits sum.splits)

lemma gui_log_procs: "procs (gui_log e w m) = procs w"
  by (simp add: gui_log_def datetime_now_def print_def)

lemma gui_listed_procs: "procs (snd (gui_listed e w u r)) = procs w"
  by (simp add: gui_listed_def Let_def gui_log_procs split: proc_result.splits sum.splits)









section \<open>The date filter of the listing request\<close>

lemma subprocess_run_procs:
  "map fst (procs (snd (subprocess_run e w argv))) = map fst (procs w) @ [argv]"
  by (simp add: subprocess_run_def Let_def)

lemma print_procs: "procs (print w s) = procs w"
  by (simp add: print_def)

lemma scrape_clips_procs:
  "map fst (procs (snd (scrape_clips e w username hours limit min_views)))
     = map fst (procs w) @ [listing_command username limit min_views]"
  by (simp add: scrape_clips_def subprocess_run_def Let_def print_procs listed_procs)

text \<open>
  C4 asks for a date filter in the listing request of every window but all-time. The
  lister of the command line never adds one: whatever \<open>hours\<close> is, the command it runs
  is the eight arguments below, and \<open>hours\<close> only chooses the period in a URL that is
  printed. So with \<open>--hours 24\<close> the tool is asked for the clips of all time, although the
  option is documented as the hours to look back. The lister of the window does what the
  claim says (\<open>gui_scrape_clips_dateafter\<close>, \<open>gui_scrape_clips_all\<close>,
  \<open>strftime_Ymd_8_digits\<close>).
\<close>

theorem scrape_clips_ignores_hours:
  "map fst (procs (snd (scrape_clips e w username hours limit min_views)))
     = map fst (procs w) @
       [[''yt-dlp'', ''--flat-playlist'', ''--dump-json'',
         ''https://www.twitch.tv/'' @ username @ ''/clips'',
         ''--match-filter'', ''view_count >= '' @ str_int min_views,
         ''--playlist-end'', str_int limit]]
   \<and> map fst (procs (snd (scrape_clips (env_stdout []) world0 ''foo'' 24 5 0)))
     = [[''yt-dlp'', ''--flat-playlist'', ''--dump-json'', ''https://www.twitch.tv/foo/clips'',
         ''--match-filter'', ''view_count >= 0'', ''--playlist-end'', ''5'']]"
proof -
  have a: "str_int 0 = ''0''" "str_int 5 = ''5''"
    by code_simp+
  have b: "procs world0 = []"
    by (simp add: world0_def)
  show ?thesis
    using scrape_clips_procs [of e w username hours limit min_views]
      scrape_clips_procs [of "env_stdout []" world0 "''foo''" 24 5 0] a b
    by (simp add: listing_command_def)
qed

text \<open>
  The lister of the window: for the period \<open>all\<close> the listing command carries no date
  filter; for every other period it ends with \<open>--dateafter\<close> and the date of the clock
  moved back by 7 days (\<open>7d\<close>), 30 days (\<open>30d\<close>) or one day (\<open>24h\<close> and anything else),
  printed as year, month, day; these are eight digits for a date from the year 1000 on.
\<close>

lemma gui_scrape_clips_all:
  "map fst (procs (snd (gui_scrape_clips e w username ''all'' limit min_views)))
     = map fst (procs w) @ [listing_command username limit min_views]"
  by (simp add: gui_scrape_clips_def subprocess_run_def Let_def gui_listed_procs gui_log_procs)

lemma gui_log_ticks: "ticks (gui_log e w m) = Suc (ticks w)"
  by (simp add: gui_log_def datetime_now_def print_def)

lemma gui_scrape_clips_dateafter:
  assumes "period \<noteq> ''all''"
    and "minus_days (clock e (ticks w + 2))
           (if period = ''7d'' then 7 else if period = ''30d'' then 30 else 1) = Some date"
  shows "map fst (procs (snd (gui_scrape_clips e w username period limit min_views)))
     = map fst (procs w) @
       [listing_command username limit min_views @ [''--dateafter'', strftime_Ymd date]]"
proof -
  define w2 where "w2 = gui_log e (gui_log e w (''Searching for clips from '' @ username @ '' ('' @ period @ '')...''))
     (''Looking back '' @ hours_display period @ '' hours/period'')"
  have t: "ticks w2 = ticks w + 2" and p: "procs w2 = procs w"
    by (simp_all add: w2_def gui_log_ticks gui_log_procs)
  have g: "get_date_filter e w2 period = (Inr (strftime_Ymd date), w2\<lparr>ticks := Suc (ticks w2)\<rparr>)"
    using assms(2) t by (auto simp: get_date_filter_def datetime_now_def)
  show ?thesis
    using assms(1) g p
    unfolding gui_scrape_clips_def Let_def w2_def [symmetric]
    by (simp add: subprocess_run_def Let_def gui_listed_procs gui_log_procs)
qed

lemma str_nat_small: "n < 10 \<Longrightarrow> str_nat n = [char_of (48 + n)]"
  by (subst str_nat.simps) simp

lemma str_nat_big: "10 \<le> n \<Longrightarrow> str_nat n = str_nat (n div 10) @ [char_of (48 + n mod 10)]"
  by (subst str_nat.simps) simp

lemma length_str_nat_2: "10 \<le> n \<Longrightarrow> n < 100 \<Longrightarrow> length (str_nat n) = 2"
  by (simp add: str_nat_big str_nat_small)

lemma length_str_nat_3: "100 \<le> n \<Longrightarrow> n < 1000 \<Longrightarrow> length (str_nat n) = 3"
  by (simp add: str_nat_big [of n] length_str_nat_2)

lemma length_str_nat_4: "1000 \<le> n \<Longrightarrow> n < 10000 \<Longrightarrow> length (str_nat n) = 4"
  by (simp add: str_nat_big [of n] length_str_nat_3)

lemma length_pad2: "n < 100 \<Longrightarrow> length (pad2 n) = 2"
  by (cases "n < 10") (simp_all add: pad2_def str_nat_small length_str_nat_2)

lemma digit_chars: "map (\<lambda>k::nat. char_of (48 + k)) [0..<10] = ''0123456789''"
  by code_simp

lemma digit_char: "(k::nat) < 10 \<Longrightarrow> char_of (48 + k) \<in> set ''0123456789''"
proof -
  assume "k < 10"
  then have "char_of (48 + k) = map (\<lambda>k::nat. char_of (48 + k)) [0..<10] ! k"
    by simp
  also have "\<dots> \<in> set (map (\<lambda>k::nat. char_of (48 + k)) [0..<10])"
    using \<open>k < 10\<close> by (intro nth_mem) simp
  finally show ?thesis
    by (simp only: digit_chars)
qed

lemma str_nat_digits: "set (str_nat n) \<subseteq> set ''0123456789''"
proof (induction n rule: str_nat.induct)
  case (1 n)
  show ?case
  proof (cases "n < 10")
    case True
    then show ?thesis
      using digit_char [of n] by (simp only: str_nat_small) simp
  next
    case False
    then have "set (str_nat n) = set (str_nat (n div 10)) \<union> {char_of (48 + n mod 10)}"
      by (simp add: str_nat_big)
    with 1 False digit_char [of "n mod 10"] show ?thesis
      by auto
  qed
qed

lemma pad2_digits: "set (pad2 n) \<subseteq> set ''0123456789''"
  using str_nat_digits [of n] by (auto simp: pad2_def)

lemma days_in_month_le: "days_in_month y m \<le> 31"
  by (simp add: days_in_month_def)

lemma days_in_month_ge: "1 \<le> days_in_month y m"
  by (simp add: days_in_month_def)

lemma strftime_Ymd_8_digits:
  assumes "valid_date d" and "1000 \<le> year d"
  shows "length (strftime_Ymd d) = 8 \<and> set (strftime_Ymd d) \<subseteq> set ''0123456789''"
proof -
  have y: "length (str_nat (year d)) = 4"
    using assms by (intro length_str_nat_4) (simp_all add: valid_date_def)
  have m: "length (pad2 (month d)) = 2"
    using assms by (intro length_pad2) (simp add: valid_date_def)
  have "day d \<le> 31"
    using assms days_in_month_le [of "year d" "month d"] by (simp add: valid_date_def)
  then have dd: "length (pad2 (day d)) = 2"
    by (intro length_pad2) simp
  show ?thesis
    using y m dd str_nat_digits [of "year d"] pad2_digits [of "month d"] pad2_digits [of "day d"]
    by (simp add: strftime_Ymd_def)
qed

lemma minus_days_valid:
  "valid_date d \<Longrightarrow> minus_days d n = Some d' \<Longrightarrow> valid_date d'"
proof (induction n arbitrary: d)
  case 0
  then show ?case by simp
next
  case (Suc n)
  show ?case
  proof (cases "1 < day d")
    case True
    with Suc.prems have "minus_days (d\<lparr>day := day d - 1\<rparr>) n = Some d'"
      by simp
    moreover have "valid_date (d\<lparr>day := day d - 1\<rparr>)"
      using Suc.prems(1) True by (simp add: valid_date_def) arith
    ultimately show ?thesis
      by (rule Suc.IH [rotated])
  next
    case False
    note day1 = False
    show ?thesis
    proof (cases "1 < month d")
      case True
      with day1 Suc.prems
      have "minus_days (d\<lparr>month := month d - 1, day := days_in_month (year d) (month d - 1)\<rparr>) n = Some d'"
        by simp
      moreover have "valid_date (d\<lparr>month := month d - 1, day := days_in_month (year d) (month d - 1)\<rparr>)"
        using Suc.prems(1) True days_in_month_ge [of "year d" "month d - 1"]
        by (simp add: valid_date_def) arith
      ultimately show ?thesis
        by (rule Suc.IH [rotated])
    next
      case False
      with day1 Suc.prems have y: "1 < year d"
        by (auto split: if_splits)
      with day1 False Suc.prems
      have "minus_days (d\<lparr>year := year d - 1, month := 12, day := 31\<rparr>) n = Some d'"
        by simp
      moreover have "valid_date (d\<lparr>year := year d - 1, month := 12, day := 31\<rparr>)"
        using Suc.prems(1) y by (auto simp add: valid_date_def days_in_month_def)
      ultimately show ?thesis
        by (rule Suc.IH [rotated])
    qed
  qed
qed


section \<open>Downloading\<close>

lemma download_clip_exists:
  "url c \<noteq> [] \<Longrightarrow> exists w (path_join dir (clip_filename c fmt)) \<Longrightarrow>
   download_clip e w c dir fmt
     = (Some (path_join dir (clip_filename c fmt)),
        print w (''Clip already exists: '' @ path_join dir (clip_filename c fmt)))"
  by (simp add: download_clip_def Let_def)

lemma gui_download_clip_exists:
  "url c \<noteq> [] \<Longrightarrow> exists w (path_join dir (clip_filename c fmt)) \<Longrightarrow>
   gui_download_clip e w fp c dir fmt
     = (Some (path_join dir (clip_filename c fmt)),
        gui_log e w (''Clip already exists: '' @ path_join dir (clip_filename c fmt)))"
  by (simp add: gui_download_clip_def Let_def)

lemma download_clip_procs:
  "url c \<noteq> [] \<Longrightarrow> \<not> exists w (path_join dir (clip_filename c fmt)) \<Longrightarrow>
   map fst (procs (snd (download_clip e w c dir fmt)))
     = map fst (procs w) @ [download_command (path_join dir (clip_filename c fmt)) (url c)]"
  by (simp add: download_clip_def subprocess_run_def Let_def print_procs split: proc_result.splits)

lemma gui_download_clip_procs:
  "url c \<noteq> [] \<Longrightarrow> \<not> exists w (path_join dir (clip_filename c fmt)) \<Longrightarrow>
   map fst (procs (snd (gui_download_clip e w fp c dir fmt)))
     = map fst (procs w) @
       [download_command (path_join dir (clip_filename c fmt)) (url c)
        @ (case fp of None \<Rightarrow> [] | Some p \<Rightarrow> if p = [] then [] else [''--ffmpeg-location'', p])]"
  by (simp add: gui_download_clip_def subprocess_run_def Let_def gui_log_procs split: proc_result.splits)

text \<open>
  C5, as stated, fails in its conclusion: two successive calls of the downloader for the
  same clip and directory need not start the download tool exactly once. When the file is
  there before the first call, neither call starts it; when the tool fails and leaves no
  file, the second call starts it again, two runs in all. Both the command-line and the
  window's downloader behave so.
\<close>

theorem download_clip_twice_not_once:
  "url clip_a \<noteq> []
   \<and> map fst (procs (snd (download_clip env_ok
        (snd (download_clip env_ok world_downloaded clip_a ''downloads'' ''mp4''))
        clip_a ''downloads'' ''mp4''))) = []
   \<and> map fst (procs (snd (download_clip env_ffmpeg_fails
        (snd (download_clip env_ffmpeg_fails world0 clip_a ''downloads'' ''mp4''))
        clip_a ''downloads'' ''mp4'')))
      = [[''yt-dlp'', ''-o'', ''downloads/foo - A.mp4'', ''-f'', ''best'', ''u1''],
         [''yt-dlp'', ''-o'', ''downloads/foo - A.mp4'', ''-f'', ''best'', ''u1'']]
   \<and> map fst (procs (snd (gui_download_clip env_ok
        (snd (gui_download_clip env_ok world_downloaded None clip_a ''downloads'' ''mp4''))
        None clip_a ''downloads'' ''mp4''))) = []
   \<and> map fst (procs (snd (gui_download_clip env_ffmpeg_fails
        (snd (gui_download_clip env_ffmpeg_fails world0 None clip_a ''downloads'' ''mp4''))
        None clip_a ''downloads'' ''mp4'')))
      = [[''yt-dlp'', ''-o'', ''downloads/foo - A.mp4'', ''-f'', ''best'', ''u1''],
         [''yt-dlp'', ''-o'', ''downloads/foo - A.mp4'', ''-f'', ''best'', ''u1'']]"
  by code_simp

text \<open>
  C5, amended. For every clip with a non-empty URL and every destination directory: if
  the file derived from the clip already exists, the downloader returns its path and
  starts no program (it only reports that the clip exists); and if the file is absent
  before the first of two successive calls and present after it, the second call returns
  the path and the two calls together start the download tool exactly once, with the
  command \<open>yt-dlp -o path -f best url\<close> (in the window followed by \<open>--ffmpeg-location\<close>
  and the located binary, when one is set).
\<close>

theorem download_clip_idempotent:
  assumes u: "url c \<noteq> []"
    and p: "p = path_join dir (clip_filename c fmt)"
  shows "(exists w p \<longrightarrow>
            download_clip e w c dir fmt = (Some p, print w (''Clip already exists: '' @ p))
          \<and> gui_download_clip e w fp c dir fmt = (Some p, gui_log e w (''Clip already exists: '' @ p)))
       \<and> (\<not> exists w p \<and> exists (snd (download_clip e w c dir fmt)) p \<longrightarrow>
            fst (download_clip e (snd (download_clip e w c dir fmt)) c dir fmt) = Some p
          \<and> map fst (procs (snd (download_clip e (snd (download_clip e w c dir fmt)) c dir fmt)))
              = map fst (procs w) @ [[''yt-dlp'', ''-o'', p, ''-f'', ''best'', url c]])
       \<and> (\<not> exists w p \<and> exists (snd (gui_download_clip e w fp c dir fmt)) p \<longrightarrow>
            fst (gui_download_clip e (snd (gui_download_clip e w fp c dir fmt)) fp c dir fmt) = Some p
          \<and> map fst (procs (snd (gui_download_clip e (snd (gui_download_clip e w fp c dir fmt)) fp c dir fmt)))
              = map fst (procs w) @
                [[''yt-dlp'', ''-o'', p, ''-f'', ''best'', url c]
                 @ (case fp of None \<Rightarrow> [] | Some f \<Rightarrow> if f = [] then [] else [''--ffmpeg-location'', f])])"
proof (intro conjI impI)
  assume "exists w p"
  then show "download_clip e w c dir fmt = (Some p, print w (''Clip already exists: '' @ p))"
    using u download_clip_exists [of c w dir fmt e] by (simp add: p)
next
  assume "exists w p"
  then show "gui_download_clip e w fp c dir fmt = (Some p, gui_log e w (''Clip already exists: '' @ p))"
    using u gui_download_clip_exists [of c w dir fmt e fp] by (simp add: p)
next
  assume a: "\<not> exists w p \<and> exists (snd (download_clip e w c dir fmt)) p"
  then show "fst (download_clip e (snd (download_clip e w c dir fmt)) c dir fmt) = Some p"
    using u download_clip_exists [of c "snd (download_clip e w c dir fmt)" dir fmt e] by (simp add: p)
  from a show "map fst (procs (snd (download_clip e (snd (download_clip e w c dir fmt)) c dir fmt)))
              = map fst (procs w) @ [[''yt-dlp'', ''-o'', p, ''-f'', ''best'', url c]]"
    using u download_clip_exists [of c "snd (download_clip e w c dir fmt)" dir fmt e]
      download_clip_procs [of c w dir fmt e]
    by (simp add: p print_procs download_command_def)
next
  assume a: "\<not> exists w p \<and> exists (snd (gui_download_clip e w fp c dir fmt)) p"
  then show "fst (gui_download_clip e (snd (gui_download_clip e w fp c dir fmt)) fp c dir fmt) = Some p"
    using u gui_download_clip_exists [of c "snd (gui_download_clip e w fp c dir fmt)" dir fmt e fp]
    by (simp add: p)
  from a show "map fst (procs (snd (gui_download_clip e (snd (gui_download_clip e w fp c dir fmt)) fp c dir fmt)))
              = map fst (procs w) @
                [[''yt-dlp'', ''-o'', p, ''-f'', ''best'', url c]
                 @ (case fp of None \<Rightarrow> [] | Some f \<Rightarrow> if f = [] then [] else [''--ffmpeg-location'', f])]"
    using u gui_download_clip_exists [of c "snd (gui_download_clip e w fp c dir fmt)" dir fmt e fp]
      gui_download_clip_procs [of c w dir fmt e fp]
    by (simp add: p gui_log_procs download_command_def)
qed

theorem download_clip_idempotent_witness:
  "download_clip (env_stdout []) world_downloaded clip_a ''downloads'' ''mp4''
     = (Some ''downloads/foo - A.mp4'',
        print world_downloaded ''Clip already exists: downloads/foo - A.mp4'')
   \<and> fst (download_clip (env_stdout [])
        (snd (download_clip (env_stdout []) world0 clip_a ''downloads'' ''mp4''))
        clip_a ''downloads'' ''mp4'') = Some ''downloads/foo - A.mp4''
   \<and> map fst (procs (snd (download_clip (env_stdout [])
        (snd (download_clip (env_stdout []) world0 clip_a ''downloads'' ''mp4''))
        clip_a ''downloads'' ''mp4'')))
      = [[''yt-dlp'', ''-o'', ''downloads/foo - A.mp4'', ''-f'', ''best'', ''u1'']]
   \<and> map fst (procs (snd (gui_download_clip (env_stdout [])
        (snd (gui_download_clip (env_stdout []) world0 None clip_a ''downloads'' ''mp4''))
        None clip_a ''downloads'' ''mp4'')))
      = [[''yt-dlp'', ''-o'', ''downloads/foo - A.mp4'', ''-f'', ''best'', ''u1'']]"
proof -
  have u: "url clip_a \<noteq> []"
    by (simp add: clip_a_def)
  have p: "''downloads/foo - A.mp4'' = path_join ''downloads'' (clip_filename clip_a ''mp4'')"
    by code_simp
  have x1: "exists world_downloaded ''downloads/foo - A.mp4''"
    by (simp add: exists_def world_downloaded_def)
  have x0: "\<not> exists world0 ''downloads/foo - A.mp4''"
    by (simp add: exists_def world0_def)
  have x2: "exists (snd (download_clip (env_stdout []) world0 clip_a ''downloads'' ''mp4'')) ''downloads/foo - A.mp4''"
    by code_simp
  have x3: "exists (snd (gui_download_clip (env_stdout []) world0 None clip_a ''downloads'' ''mp4'')) ''downloads/foo - A.mp4''"
    by code_simp
  have c: "url clip_a = ''u1''"
    by (simp add: clip_a_def)
  have p0: "procs world0 = []"
    by (simp add: world0_def)
  note t1 = download_clip_idempotent [OF u p, of world_downloaded "env_stdout []" None]
  note t2 = download_clip_idempotent [OF u p, of world0 "env_stdout []" None]
  show ?thesis
    using t1 t2 x1 x0 x2 x3 c p0 by simp
qed

section \<open>Orchestration\<close>

lemma print_written: "written (print w s) = written w"
  by (simp add: print_def)

lemma gui_log_written: "written (gui_log e w m) = written w"
  by (simp add: gui_log_def datetime_now_def print_def)

lemma run_checked_written: "written (snd (run_checked e w c)) = written w"
  by (simp add: run_checked_def subprocess_run_def Let_def split: option.splits proc_result.splits)

lemma run_checked_procs:
  "argv_of c = Some argv \<Longrightarrow> map fst (procs (snd (run_checked e w c))) = map fst (procs w) @ [argv]"
  by (simp add: run_checked_argv)

lemma check_dependencies_ok:
  assumes "check_dependencies e w = (Inr (), w1)"
  shows "written w1 = written w
       \<and> map fst (procs w1) = map fst (procs w) @ [[''yt-dlp'', ''--version''], [''ffmpeg'', ''-version'']]"
proof -
  have a: "argv_of [Some ''yt-dlp'', Some ''--version''] = Some [''yt-dlp'', ''--version'']"
    "argv_of [Some ''ffmpeg'', Some ''-version''] = Some [''ffmpeg'', ''-version'']"
    by simp_all
  show ?thesis
    using assms
    by (auto simp: check_dependencies_def run_checked_argv [OF a(1)] run_checked_argv [OF a(2)] print_def
        split: sum.splits proc_result.splits if_splits)
qed

lemma listed_written: "written (snd (listed e w u r)) = written w"
  by (simp add: listed_def print_def split: proc_result.splits sum.splits)

lemma gui_listed_written: "written (snd (gui_listed e w u r)) = written w"
  by (simp add: gui_listed_def Let_def gui_log_written split: proc_result.splits sum.splits)

lemma scrape_clips_written: "written (snd (scrape_clips e w u h l m)) = written w"
  by (simp add: scrape_clips_def subprocess_run_def Let_def listed_written print_def)

lemma banner_same: "written (banner w a) = written w \<and> procs (banner w a) = procs w"
  by (simp add: banner_def print_def)

lemma gui_scrape_clips_written: "written (snd (gui_scrape_clips e w u p l m)) = written w"
  by (simp add: gui_scrape_clips_def get_date_filter_def datetime_now_def subprocess_run_def Let_def
      gui_listed_written gui_log_written split: prod.splits sum.splits option.splits)

lemma gui_scrape_clips_procs:
  "map fst (procs (snd (gui_scrape_clips e w u p l m))) = map fst (procs w)
   \<or> map fst (procs (snd (gui_scrape_clips e w u p l m))) = map fst (procs w) @ [listing_command u l m]
   \<or> (\<exists>date. map fst (procs (snd (gui_scrape_clips e w u p l m)))
         = map fst (procs w) @ [listing_command u l m @ [''--dateafter'', date]])"
  by (simp add: gui_scrape_clips_def get_date_filter_def datetime_now_def subprocess_run_def Let_def
      gui_listed_procs gui_log_procs split: prod.splits sum.splits option.splits)

lemma root_after_same:
  "written (root_after w c) = written w \<and> procs (root_after w c) = procs w
   \<and> printed (root_after w c) = printed w"
  by (simp add: root_after_def)

text \<open>
  C9. When the listing step returns the empty list, the orchestrator ends early. On the
  command line, \<open>main\<close> (its dependency check passed) returns after printing that no
  clips were found for the streamer; in the window, \<open>download_clips_thread\<close> logs that no
  clips were found, sets the status to \<open>No clips found\<close> and re-enables the buttons. In
  both, the world at the end is the world the listing left plus that report: no file has
  been written (neither metadata nor instructions), and the only programs started are the
  two dependency probes (command line only) and the listing command; no download, no
  summary of downloads.
\<close>

theorem orchestrator_empty_listing:
  "(check_dependencies e w = (Inr (), w1) \<longrightarrow>
    scrape_clips e (banner w1 a) (args_streamer a) (args_hours a) (args_limit a) (args_min_views a)
      = ([], w2) \<longrightarrow>
      main e w a
        = (Inr (), print w2 (''No clips found for '' @ args_streamer a @ '' in the last ''
                             @ str_int (args_hours a) @ '' hours.''))
    \<and> written (snd (main e w a)) = written w
    \<and> map fst (procs (snd (main e w a)))
        = map fst (procs w) @
          [[''yt-dlp'', ''--version''], [''ffmpeg'', ''-version''],
           listing_command (args_streamer a) (args_limit a) (args_min_views a)])
   \<and> (gui_scrape_clips e
         (gui_log e w (''Searching for clips from '' @ strip (streamer_var f) @ '' (''
                       @ period_var f @ '')...''))
         (strip (streamer_var f)) (period_var f) (limit_var f) (min_views_var f) = ([], w3) \<longrightarrow>
      download_clips_thread e w f
        = root_after
            (root_after
               (root_after
                  (gui_log e w3 (''No clips found for '' @ strip (streamer_var f)
                                 @ '' in the selected time period.''))
                  (SetStatus ''No clips found''))
               EnableButtons)
            EnableButtons
    \<and> written (download_clips_thread e w f) = written w
    \<and> (map fst (procs (download_clips_thread e w f)) = map fst (procs w)
        \<or> map fst (procs (download_clips_thread e w f))
            = map fst (procs w) @
              [listing_command (strip (streamer_var f)) (limit_var f) (min_views_var f)]
        \<or> (\<exists>date. map fst (procs (download_clips_thread e w f))
              = map fst (procs w) @
                [listing_command (strip (streamer_var f)) (limit_var f) (min_views_var f)
                 @ [''--dateafter'', date]])))"
proof (intro conjI impI)
  assume c: "check_dependencies e w = (Inr (), w1)"
    and s: "scrape_clips e (banner w1 a) (args_streamer a) (args_hours a) (args_limit a) (args_min_views a)
      = ([], w2)"
  show m: "main e w a
        = (Inr (), print w2 (''No clips found for '' @ args_streamer a @ '' in the last ''
                             @ str_int (args_hours a) @ '' hours.''))"
    using c s by (simp add: main_def)
  have w2w: "written w2 = written w"
    using scrape_clips_written [of e "banner w1 a" "args_streamer a" "args_hours a" "args_limit a" "args_min_views a"]
      s banner_same [of w1 a] check_dependencies_ok [OF c]
    by simp
  show "written (snd (main e w a)) = written w"
    using m w2w by (simp add: print_written)
  have "map fst (procs w2) = map fst (procs (banner w1 a))
      @ [listing_command (args_streamer a) (args_limit a) (args_min_views a)]"
    using scrape_clips_procs [of e "banner w1 a" "args_streamer a" "args_hours a" "args_limit a" "args_min_views a"]
      s by simp
  then show "map fst (procs (snd (main e w a)))
        = map fst (procs w) @
          [[''yt-dlp'', ''--version''], [''ffmpeg'', ''-version''],
           listing_command (args_streamer a) (args_limit a) (args_min_views a)]"
    using m banner_same [of w1 a] check_dependencies_ok [OF c]
    by (simp add: print_procs)
next
  define w0 where "w0 = gui_log e w (''Searching for clips from '' @ strip (streamer_var f) @ '' (''
                       @ period_var f @ '')...'')"
  assume "gui_scrape_clips e
         (gui_log e w (''Searching for clips from '' @ strip (streamer_var f) @ '' (''
                       @ period_var f @ '')...''))
         (strip (streamer_var f)) (period_var f) (limit_var f) (min_views_var f) = ([], w3)"
  then have s: "gui_scrape_clips e w0 (strip (streamer_var f)) (period_var f) (limit_var f) (min_views_var f)
      = ([], w3)"
    by (simp add: w0_def)
  have m: "download_clips_thread e w f
        = root_after
            (root_after
               (root_after
                  (gui_log e w3 (''No clips found for '' @ strip (streamer_var f)
                                 @ '' in the selected time period.''))
                  (SetStatus ''No clips found''))
               EnableButtons)
            EnableButtons"
    using s unfolding download_clips_thread_def Let_def w0_def [symmetric] by simp
  then show "download_clips_thread e w f
        = root_after
            (root_after
               (root_after
                  (gui_log e w3 (''No clips found for '' @ strip (streamer_var f)
                                 @ '' in the selected time period.''))
                  (SetStatus ''No clips found''))
               EnableButtons)
            EnableButtons" .
  have "written w3 = written w0"
    using gui_scrape_clips_written [of e w0 "strip (streamer_var f)" "period_var f" "limit_var f" "min_views_var f"] s
    by simp
  then show "written (download_clips_thread e w f) = written w"
    by (simp add: m root_after_same gui_log_written w0_def)
  have p: "procs (download_clips_thread e w f) = procs w3" "procs w0 = procs w"
    by (simp_all add: m root_after_same gui_log_procs w0_def)
  show "map fst (procs (download_clips_thread e w f)) = map fst (procs w)
        \<or> map fst (procs (download_clips_thread e w f))
            = map fst (procs w) @
              [listing_command (strip (streamer_var f)) (limit_var f) (min_views_var f)]
        \<or> (\<exists>date. map fst (procs (download_clips_thread e w f))
              = map fst (procs w) @
                [listing_command (strip (streamer_var f)) (limit_var f) (min_views_var f)
                 @ [''--dateafter'', date]])"
    using gui_scrape_clips_procs [of e w0 "strip (streamer_var f)" "period_var f" "limit_var f" "min_views_var f"] s
    by (simp add: p)
qed

theorem orchestrator_empty_listing_witness:
  "fst (main (env_stdout ''{'') world0 args0) = Inr ()
   \<and> written (snd (main (env_stdout ''{'') world0 args0)) = []
   \<and> map fst (procs (snd (main (env_stdout ''{'') world0 args0)))
       = [[''yt-dlp'', ''--version''], [''ffmpeg'', ''-version''],
          [''yt-dlp'', ''--flat-playlist'', ''--dump-json'', ''https://www.twitch.tv/foo/clips'',
           ''--match-filter'', ''view_count >= 0'', ''--playlist-end'', ''5'']]
   \<and> gui (download_clips_thread (env_stdout ''{'') world0 form0)
       = [SetStatus ''No clips found'', EnableButtons, EnableButtons]
   \<and> written (download_clips_thread (env_stdout ''{'') world0 form0) = []"
proof -
  have c: "fst (check_dependencies (env_stdout ''{'') world0) = Inr ()"
    by code_simp
  have c': "check_dependencies (env_stdout ''{'') world0
      = (Inr (), snd (check_dependencies (env_stdout ''{'') world0))"
    using c by (metis prod.collapse)
  have s: "fst (scrape_clips (env_stdout ''{'') (banner (snd (check_dependencies (env_stdout ''{'') world0)) args0)
      (args_streamer args0) (args_hours args0) (args_limit args0) (args_min_views args0)) = []"
    by code_simp
  have s': "scrape_clips (env_stdout ''{'') (banner (snd (check_dependencies (env_stdout ''{'') world0)) args0)
      (args_streamer args0) (args_hours args0) (args_limit args0) (args_min_views args0)
     = ([], snd (scrape_clips (env_stdout ''{'') (banner (snd (check_dependencies (env_stdout ''{'') world0)) args0)
      (args_streamer args0) (args_hours args0) (args_limit args0) (args_min_views args0)))"
    using s by (metis prod.collapse)
  have g: "fst (gui_scrape_clips (env_stdout ''{'')
         (gui_log (env_stdout ''{'') world0 (''Searching for clips from '' @ strip (streamer_var form0) @ '' (''
                       @ period_var form0 @ '')...''))
         (strip (streamer_var form0)) (period_var form0) (limit_var form0) (min_views_var form0)) = []"
    by code_simp
  have g': "gui_scrape_clips (env_stdout ''{'')
         (gui_log (env_stdout ''{'') world0 (''Searching for clips from '' @ strip (streamer_var form0) @ '' (''
                       @ period_var form0 @ '')...''))
         (strip (streamer_var form0)) (period_var form0) (limit_var form0) (min_views_var form0)
      = ([], snd (gui_scrape_clips (env_stdout ''{'')
         (gui_log (env_stdout ''{'') world0 (''Searching for clips from '' @ strip (streamer_var form0) @ '' (''
                       @ period_var form0 @ '')...''))
         (strip (streamer_var form0)) (period_var form0) (limit_var form0) (min_views_var form0)))"
    using g by (metis prod.collapse)
  have l: "listing_command (args_streamer args0) (args_limit args0) (args_min_views args0)
      = [''yt-dlp'', ''--flat-playlist'', ''--dump-json'', ''https://www.twitch.tv/foo/clips'',
           ''--match-filter'', ''view_count >= 0'', ''--playlist-end'', ''5'']"
    by code_simp
  have w: "written world0 = []" "procs world0 = []"
    by (simp_all add: world0_def)
  have gg: "gui (snd (gui_scrape_clips (env_stdout ''{'')
         (gui_log (env_stdout ''{'') world0 (''Searching for clips from '' @ strip (streamer_var form0) @ '' (''
                       @ period_var form0 @ '')...''))
         (strip (streamer_var form0)) (period_var form0) (limit_var form0) (min_views_var form0))) = []"
    by code_simp
  note t = orchestrator_empty_listing [of "env_stdout ''{''" world0 _ args0 _ form0 _]
  from t c' s' have m: "main (env_stdout ''{'') world0 args0
        = (Inr (), print (snd (scrape_clips (env_stdout ''{'') (banner (snd (check_dependencies (env_stdout ''{'') world0)) args0)
      (args_streamer args0) (args_hours args0) (args_limit args0) (args_min_views args0))) (''No clips found for '' @ args_streamer args0 @ '' in the last ''
                             @ str_int (args_hours args0) @ '' hours.''))"
    and m2: "written (snd (main (env_stdout ''{'') world0 args0)) = written world0"
    and m3: "map fst (procs (snd (main (env_stdout ''{'') world0 args0)))
        = map fst (procs world0) @
          [[''yt-dlp'', ''--version''], [''ffmpeg'', ''-version''],
           listing_command (args_streamer args0) (args_limit args0) (args_min_views args0)]"
    by blast+
  from t g' have d: "download_clips_thread (env_stdout ''{'') world0 form0
        = root_after
            (root_after
               (root_after
                  (gui_log (env_stdout ''{'') (snd (gui_scrape_clips (env_stdout ''{'')
         (gui_log (env_stdout ''{'') world0 (''Searching for clips from '' @ strip (streamer_var form0) @ '' (''
                       @ period_var form0 @ '')...''))
         (strip (streamer_var form0)) (period_var form0) (limit_var form0) (min_views_var form0))) (''No clips found for '' @ strip (streamer_var form0)
                                 @ '' in the selected time period.''))
                  (SetStatus ''No clips found''))
               EnableButtons)
            EnableButtons"
    and d2: "written (download_clips_thread (env_stdout ''{'') world0 form0) = written world0"
    by blast+
  have gl: "\<And>e w m. gui (gui_log e w m) = gui w"
    by (simp add: gui_log_def datetime_now_def print_def)
  show ?thesis
    using m m2 m3 d2 l w gg
    by (simp add: d root_after_def gl)
qed

text \<open>On the command line the two lines \<^verbatim>\<open>{"view_count": null}\<close> and
  \<^verbatim>\<open>{"view_count": 3}\<close> are listed as two clips, and the sort of \<open>main\<close>, which is
  under no \<open>try\<close>, raises \<open>TypeError\<close> out of \<open>main\<close> before anything is downloaded.\<close>

lemma main_sort_raises:
  "fst (main (env_stdout (line_null @ nl @ line_three)) world0 args0) = Inl TypeError"
  "length (procs (snd (main (env_stdout (line_null @ nl @ line_three)) world0 args0))) = 3"
  by code_simp+

end
